theory Spec2Isabelle
  imports Complex_Main "HOL-Library.Sublist"
begin

section \<open>JavaScript strings\<close>

text \<open>
  A JavaScript string is modelled as a \<^typ>\<open>string\<close>: a list of 8-bit characters, read as
  the code units 0 to 255 (ASCII and Latin-1).  Host names returned by the platform's
  \<^verbatim>\<open>URL\<close> class are of this kind.  Code units above 255 are outside the model.
\<close>

fun str_includes :: "string \<Rightarrow> string \<Rightarrow> bool" where
  "str_includes [] t = (t = [])"
| "str_includes (c # cs) t = (prefix t (c # cs) \<or> str_includes cs t)"

definition endsWith :: "string \<Rightarrow> string \<Rightarrow> bool" where
  "endsWith s t = suffix t s"

definition startsWith :: "string \<Rightarrow> string \<Rightarrow> bool" where
  "startsWith s t = prefix t s"

definition code :: "char \<Rightarrow> nat" where
  "code c = of_char c"

text \<open>\<^verbatim>\<open>String.prototype.toLowerCase\<close> on the code units 0 to 255: the letters A to Z
  and the Latin-1 capitals (0xC0 to 0xDE without the multiplication sign 0xD7) move up by 32.\<close>

definition lower_char :: "char \<Rightarrow> char" where
  "lower_char c =
     (if (65 \<le> code c \<and> code c \<le> 90) \<or> (192 \<le> code c \<and> code c \<le> 222 \<and> code c \<noteq> 215)
      then char_of (code c + 32) else c)"

definition toLowerCase :: "string \<Rightarrow> string" where
  "toLowerCase s = map lower_char s"

text \<open>Case folding of a regular expression with the \<^verbatim>\<open>i\<close> flag and ASCII atoms: only the
  ASCII letters fold.\<close>

definition ascii_lower :: "char \<Rightarrow> char" where
  "ascii_lower c = (if 65 \<le> code c \<and> code c \<le> 90 then char_of (code c + 32) else c)"

definition is_digit :: "char \<Rightarrow> bool" where
  "is_digit c = (48 \<le> code c \<and> code c \<le> 57)"

definition is_upper :: "char \<Rightarrow> bool" where
  "is_upper c = (65 \<le> code c \<and> code c \<le> 90)"

definition is_lower :: "char \<Rightarrow> bool" where
  "is_lower c = (97 \<le> code c \<and> code c \<le> 122)"

definition is_hex :: "char \<Rightarrow> bool" where
  "is_hex c = (is_digit c \<or> (65 \<le> code c \<and> code c \<le> 70) \<or> (97 \<le> code c \<and> code c \<le> 102))"

text \<open>\<^verbatim>\<open>s.split('.')\<close>: the pieces between the dots; a string without a dot (the empty
  string too) gives one piece.\<close>

fun split_dot :: "string \<Rightarrow> string list" where
  "split_dot [] = [[]]"
| "split_dot (c # cs) =
     (case split_dot cs of
        [] \<Rightarrow> [[c]]
      | p # ps \<Rightarrow> if c = CHR ''.'' then [] # p # ps else (c # p) # ps)"

fun join_dot :: "string list \<Rightarrow> string" where
  "join_dot [] = []"
| "join_dot [p] = p"
| "join_dot (p # q # ps) = p @ ''.'' @ join_dot (q # ps)"

text \<open>\<^verbatim>\<open>s.replace(new RegExp(c, 'g'), sub)\<close> for a letter \<open>c\<close>.\<close>

definition replace_all :: "char \<Rightarrow> string \<Rightarrow> string \<Rightarrow> string" where
  "replace_all c sub s = concat (map (\<lambda>x. if x = c then sub else [x]) s)"

text \<open>Decimal rendering of a number inside a template string.\<close>

fun digits_of :: "nat \<Rightarrow> nat \<Rightarrow> string" where
  "digits_of 0 n = []"
| "digits_of (Suc fuel) n =
     (if n < 10 then [char_of (48 + n)]
      else digits_of fuel (n div 10) @ [char_of (48 + n mod 10)])"

definition show_nat :: "nat \<Rightarrow> string" where
  "show_nat n = digits_of (Suc n) n"

section \<open>Regular expressions\<close>

text \<open>
  The regular expressions of the sources are sequences of three kinds of element: an
  alternation of literal strings, a character class repeated between a lower and an
  optional upper bound, and the end anchor.  \<open>match_here\<close> tries every repetition count, as
  the backtracking matcher does; \<open>regex_test\<close> is \<^verbatim>\<open>RegExp.prototype.test\<close> for a pattern
  without a start anchor (a match may begin anywhere), \<open>regex_test_anchored\<close> for a pattern
  that begins with \<^verbatim>\<open>^\<close>.  The flag says whether the pattern carries \<^verbatim>\<open>i\<close>: the
  literals and classes of such a pattern are written in lower case and matched against
  the subject with its ASCII letters folded to lower case.
\<close>

datatype elem = Lits "string list" | Rep "char \<Rightarrow> bool" nat "nat option" | End

definition fold_case :: "bool \<Rightarrow> string \<Rightarrow> string" where
  "fold_case ci s = (if ci then map ascii_lower s else s)"

fun match_here :: "elem list \<Rightarrow> string \<Rightarrow> bool" where
  "match_here [] s = True"
| "match_here (End # es) s = (if s = [] then match_here es s else False)"
| "match_here (Lits ls # es) s =
     list_ex (\<lambda>l. if prefix l s then match_here es (drop (length l) s) else False) ls"
| "match_here (Rep p lo hi # es) s =
     (let run = length (takeWhile p s);
          top = (case hi of None \<Rightarrow> run | Some h \<Rightarrow> min h run)
      in list_ex (\<lambda>k. match_here es (drop k s)) [lo..<Suc top])"

definition regex_test :: "bool \<Rightarrow> elem list \<Rightarrow> string \<Rightarrow> bool" where
  "regex_test ci es s = list_ex (match_here es) (suffixes (fold_case ci s))"

definition regex_test_anchored :: "bool \<Rightarrow> elem list \<Rightarrow> string \<Rightarrow> bool" where
  "regex_test_anchored ci es s = match_here es (fold_case ci s)"

text \<open>The dot of a regular expression: any character but a line terminator.\<close>

definition dot :: "char \<Rightarrow> bool" where
  "dot c = (code c \<noteq> 10 \<and> code c \<noteq> 13)"

definition any_star :: elem where
  "any_star = Rep dot 0 None"

definition d13 :: elem where
  "d13 = Rep is_digit 1 (Some 3)"

section \<open>Configuration constants\<close>

datatype threat_level = Safe | Suspicious | Dangerous | Unknown

datatype severity = Low | Medium | High

definition PHISHING_KEYWORDS :: "string list" where
  "PHISHING_KEYWORDS =
    [''verify'', ''account'', ''suspended'', ''confirm'', ''update'', ''validate'',
     ''reactivate'', ''locked'', ''blocked'', ''restricted'', ''frozen'',
     ''urgent'', ''immediately'', ''act now'', ''limited time'', ''expire'', ''expires'',
     ''deadline'', ''final notice'', ''last chance'', ''hurry'', ''act fast'',
     ''password'', ''security'', ''alert'', ''warning'', ''unusual activity'',
     ''suspicious'', ''unauthorized'', ''breach'', ''compromised'', ''hacked'',
     ''winner'', ''prize'', ''reward'', ''congratulations'', ''won'', ''lottery'',
     ''million'', ''inheritance'', ''fund'', ''transfer'', ''claim'',
     ''click here'', ''click below'', ''verify now'', ''confirm now'', ''update now'',
     ''download'', ''open attachment'', ''see details'', ''view message'',
     ''refund'', ''tax'', ''irs'', ''payment'', ''invoice'', ''overdue'', ''debt'',
     ''owed'', ''billing'', ''charge'', ''transaction'', ''purchase'',
     ''free'', ''guarantee'', ''risk-free'', ''no cost'', ''100%'', ''amazing offer'',
     ''special promotion'', ''exclusive'', ''selected'', ''qualified'',
     ''login'', ''sign in'', ''credentials'', ''username'', ''ssn'', ''social security'',
     ''re-enter'', ''provide'', ''submit'', ''fill out'',
     ''customer service'', ''support team'', ''helpdesk'', ''admin'', ''administrator'',
     ''official'', ''authorized'', ''representative'']"

definition SPAM_INDICATORS :: "string list" where
  "SPAM_INDICATORS =
    [''viagra'', ''cialis'', ''pharmacy'', ''pills'', ''medication'', ''weight loss'',
     ''work from home'', ''make money'', ''earn $'', ''get paid'', ''income opportunity'',
     ''mlm'', ''multi-level'', ''investment opportunity'', ''crypto gains'',
     ''bitcoin'', ''forex'', ''trading bot'', ''guaranteed profit'',
     ''enlarge'', ''enhancement'', ''replica'', ''luxury goods'',
     ''nigerian prince'', ''beneficiary'', ''next of kin'', ''offshore'',
     ''unsubscribe'', ''opt-out'', ''remove me'', ''mailing list'']"

definition SUSPICIOUS_TLDS :: "string list" where
  "SUSPICIOUS_TLDS =
    [''.tk'', ''.ml'', ''.ga'', ''.cf'', ''.gq'', ''.xyz'', ''.top'',
     ''.club'', ''.work'', ''.click'', ''.link'', ''.bid'', ''.country'']"

definition LEGITIMATE_DOMAINS :: "string list" where
  "LEGITIMATE_DOMAINS =
    [''google.com'', ''gmail.com'', ''outlook.com'', ''microsoft.com'',
     ''apple.com'', ''amazon.com'', ''paypal.com'', ''facebook.com'',
     ''twitter.com'', ''linkedin.com'', ''github.com'', ''dropbox.com'',
     ''bankofamerica.com'', ''chase.com'', ''wellsfargo.com'', ''citibank.com'',
     ''usbank.com'', ''pnc.com'', ''capitalone.com'', ''tdbank.com'',
     ''barclays.com'', ''hsbc.com'', ''santander.com'', ''deutsche-bank.com'',
     ''stripe.com'', ''square.com'', ''venmo.com'', ''cashapp.com'',
     ''coinbase.com'', ''binance.com'', ''kraken.com'', ''gemini.com'',
     ''ebay.com'', ''walmart.com'', ''target.com'', ''bestbuy.com'',
     ''netflix.com'', ''hulu.com'', ''disneyplus.com'', ''spotify.com'',
     ''instagram.com'', ''tiktok.com'', ''snapchat.com'', ''reddit.com'',
     ''yahoo.com'', ''protonmail.com'', ''zoho.com'', ''aol.com'']"

definition TYPOSQUATTING_TARGETS :: "string list" where
  "TYPOSQUATTING_TARGETS =
    [''google'', ''facebook'', ''amazon'', ''microsoft'', ''apple'',
     ''netflix'', ''instagram'', ''twitter'', ''linkedin'', ''youtube'',
     ''tiktok'', ''snapchat'', ''reddit'', ''discord'', ''telegram'',
     ''whatsapp'', ''zoom'', ''slack'', ''github'', ''gitlab'',
     ''paypal'', ''stripe'', ''square'', ''venmo'', ''cashapp'',
     ''coinbase'', ''binance'', ''kraken'', ''gemini'', ''robinhood'',
     ''bankofamerica'', ''chase'', ''wellsfargo'', ''citibank'', ''usbank'',
     ''pnc'', ''capitalone'', ''tdbank'', ''bofa'', ''citi'',
     ''barclays'', ''hsbc'', ''santander'', ''deutschebank'', ''bnpparibas'',
     ''creditsuis se'', ''ing'', ''natwest'', ''lloydsbank'', ''rbs'',
     ''ebay'', ''walmart'', ''target'', ''bestbuy'', ''costco'',
     ''homedepot'', ''lowes'', ''alibaba'', ''aliexpress'', ''etsy'',
     ''spotify'', ''hulu'', ''disneyplus'', ''hbomax'', ''primevideo'',
     ''twitch'', ''vimeo'', ''soundcloud'', ''pandora'',
     ''gmail'', ''outlook'', ''yahoo'', ''protonmail'', ''icloud'',
     ''dropbox'', ''onedrive'', ''googledrive'', ''icloud'', ''box'',
     ''steam'', ''epicgames'', ''playstation'', ''xbox'', ''nintendo'',
     ''roblox'', ''minecraft'', ''fortnite'', ''ea'', ''ubisoft'',
     ''irs'', ''usps'', ''fedex'', ''ups'', ''dhl'',
     ''coursera'', ''udemy'', ''edx'', ''khanacademy'', ''duolingo'',
     ''adobe'', ''salesforce'', ''shopify'', ''wordpress'', ''squarespace'']"

definition URL_SHORTENERS :: "string list" where
  "URL_SHORTENERS =
    [''bit.ly'', ''tinyurl.com'', ''goo.gl'', ''t.co'', ''ow.ly'',
     ''is.gd'', ''buff.ly'', ''adf.ly'', ''bit.do'', ''short.link'']"

text \<open>\<^verbatim>\<open>PATTERNS.IP_ADDRESS = /^(?:\d{1,3}\.){3}\d{1,3}$/\<close>,
  \<^verbatim>\<open>PATTERNS.MULTIPLE_DOTS = /\.{2,}/\<close> and
  \<^verbatim>\<open>PATTERNS.ENCODED_CHARS = /%[0-9A-Fa-f]{2}/\<close>.\<close>

definition IP_ADDRESS :: "elem list" where
  "IP_ADDRESS = [d13, Lits [''.''], d13, Lits [''.''], d13, Lits [''.''], d13, End]"

definition MULTIPLE_DOTS :: "elem list" where
  "MULTIPLE_DOTS = [Rep (\<lambda>c. c = CHR ''.'') 2 None]"

definition ENCODED_CHARS :: "elem list" where
  "ENCODED_CHARS = [Lits [''%''], Rep is_hex 2 (Some 2)]"

text \<open>\<^verbatim>\<open>CACHE_DURATION\<close>, indexed by the upper-cased threat level; \<^verbatim>\<open>UNKNOWN\<close> has
  no entry.\<close>

fun CACHE_DURATION :: "threat_level \<Rightarrow> int option" where
  "CACHE_DURATION Safe = Some 86400000"
| "CACHE_DURATION Suspicious = Some 3600000"
| "CACHE_DURATION Dangerous = Some 604800000"
| "CACHE_DURATION Unknown = None"

section \<open>The URL parser (url-parser.js)\<close>

text \<open>
  The platform's \<^verbatim>\<open>URL\<close> class is not part of the repository.  Its result on a string is
  a parameter of the model: \<open>None\<close> when the constructor throws, otherwise the fields the
  sources read.
\<close>

record url_obj =
  u_hostname :: string
  u_protocol :: string
  u_username :: string
  u_port :: string
  u_pathname :: string
  u_searchParams :: "(string \<times> string) list"

type_synonym url_ctor = "string \<Rightarrow> url_obj option"

datatype error = TypeError string

record issue =
  itype :: string
  severity :: severity
  message :: string
  i_mlScore :: "nat option"
  recommendation :: "string option"

definition mk_issue :: "string \<Rightarrow> severity \<Rightarrow> string \<Rightarrow> issue" where
  "mk_issue t s m =
     \<lparr>itype = t, severity = s, message = m, i_mlScore = None, recommendation = None\<rparr>"

text \<open>
  A \<^verbatim>\<open>URLParser\<close> object.  The constructor sets \<^verbatim>\<open>hostname\<close>, \<^verbatim>\<open>domain\<close>,
  \<^verbatim>\<open>protocol\<close> and \<^verbatim>\<open>username\<close> from \<^verbatim>\<open>parsed\<close> and nothing changes them later, so
  they are functions of \<open>parsed\<close>; they are null (\<open>None\<close>) when the URL did not parse.
\<close>

record URLParser =
  p_url :: string
  parsed :: "url_obj option"

definition new_URLParser :: "url_ctor \<Rightarrow> string \<Rightarrow> URLParser" where
  "new_URLParser URL u = \<lparr>p_url = u, parsed = URL u\<rparr>"

definition extractDomain :: "string \<Rightarrow> string" where
  "extractDomain hostname =
     (let parts = split_dot hostname
      in if length parts \<ge> 2 then join_dot (drop (length parts - 2) parts) else hostname)"

definition this_hostname :: "URLParser \<Rightarrow> string option" where
  "this_hostname p = map_option (\<lambda>u. toLowerCase (u_hostname u)) (parsed p)"

definition this_domain :: "URLParser \<Rightarrow> string option" where
  "this_domain p = map_option extractDomain (this_hostname p)"

definition isIPAddress :: "string \<Rightarrow> bool" where
  "isIPAddress hostname = regex_test_anchored False IP_ADDRESS hostname"

definition hasSuspiciousTLD :: "string \<Rightarrow> bool" where
  "hasSuspiciousTLD hostname = list_ex (\<lambda>tld. endsWith hostname tld) SUSPICIOUS_TLDS"

definition hasEncodedChars :: "string \<Rightarrow> bool" where
  "hasEncodedChars u = regex_test False ENCODED_CHARS u"

definition hasMultipleDots :: "string \<Rightarrow> bool" where
  "hasMultipleDots hostname = regex_test False MULTIPLE_DOTS hostname"

definition isURLShortener :: "string \<Rightarrow> bool" where
  "isURLShortener domain = list_ex (\<lambda>shortener. domain = shortener) URL_SHORTENERS"

text \<open>\<^verbatim>\<open>isLegitimate\<close> reads \<^verbatim>\<open>this.domain\<close> and then calls \<^verbatim>\<open>this.hostname.endsWith\<close>:
  on a parser whose URL did not parse the host name is null and the call throws.\<close>

fun some_legitimate :: "string list \<Rightarrow> string option \<Rightarrow> string option \<Rightarrow> error + bool" where
  "some_legitimate [] d h = Inr False"
| "some_legitimate (x # xs) d h =
     (if d = Some x then Inr True
      else case h of
        None \<Rightarrow> Inl (TypeError ''Cannot read properties of null'')
      | Some hostname \<Rightarrow>
          if endsWith hostname (''.'' @ x) then Inr True else some_legitimate xs d h)"

definition isLegitimate :: "URLParser \<Rightarrow> error + bool" where
  "isLegitimate p = some_legitimate LEGITIMATE_DOMAINS (this_domain p) (this_hostname p)"

text \<open>The lookalike table of \<^verbatim>\<open>hasHomographAttack\<close>, per Latin letter.  The entries
  kept are the one-character ASCII entries \<^verbatim>\<open>1 l | I 0 v\<close>.  Every other entry of the table
  is a string of two or more characters with a code unit above 255, which is not a
  substring of any modelled string; the letters without an ASCII entry are left out.\<close>

definition homographs :: "(char \<times> char list) list" where
  "homographs =
    [(CHR ''i'', [CHR ''1'', CHR ''l'', CHR ''|'']),
     (CHR ''l'', [CHR ''1'', CHR ''I'', CHR ''|'']),
     (CHR ''o'', [CHR ''0'']),
     (CHR ''v'', [CHR ''v''])]"

datatype script = Latin | Cyrillic | Greek | Armenian

definition detectMixedScripts :: "string \<Rightarrow> script list" where
  "detectMixedScripts text =
     fold (\<lambda>c scripts.
        if (0x41 \<le> code c \<and> code c \<le> 0x5A) \<or> (0x61 \<le> code c \<and> code c \<le> 0x7A)
          then List.insert Latin scripts
        else if 0x400 \<le> code c \<and> code c \<le> 0x4FF then List.insert Cyrillic scripts
        else if 0x370 \<le> code c \<and> code c \<le> 0x3FF then List.insert Greek scripts
        else if 0x530 \<le> code c \<and> code c \<le> 0x58F then List.insert Armenian scripts
        else scripts) text []"

definition hasHomographAttack :: "string \<Rightarrow> bool" where
  "hasHomographAttack hostname =
     (if list_ex (\<lambda>(latin, lookalikes).
           list_ex (\<lambda>lookalike. str_includes hostname [lookalike]) lookalikes) homographs
      then True
      else if length (detectMixedScripts hostname) > 1 then True
      else False)"

text \<open>\<^verbatim>\<open>levenshteinDistance\<close> fills its matrix row by row; \<open>lev_row\<close> computes the cells
  1 to \<^verbatim>\<open>str1.length\<close> of the row of one character of \<^verbatim>\<open>str2\<close> from the row above.\<close>

fun lev_row :: "char \<Rightarrow> string \<Rightarrow> nat list \<Rightarrow> nat \<Rightarrow> nat list" where
  "lev_row c (a # as) (diag # up # prev) left =
     (let v = (if c = a then diag else min (diag + 1) (min (left + 1) (up + 1)))
      in v # lev_row c as (up # prev) v)"
| "lev_row c _ _ _ = []"

definition levenshteinDistance :: "string \<Rightarrow> string \<Rightarrow> nat" where
  "levenshteinDistance str1 str2 =
     last (fold (\<lambda>(i, c) prev. i # lev_row c str1 prev i)
             (zip [1..<Suc (length str2)] str2) [0..<Suc (length str1)])"

definition substitutions :: "(char \<times> string list) list" where
  "substitutions =
    [(CHR ''a'', [''4'', ''@'']),
     (CHR ''e'', [''3'']),
     (CHR ''i'', [''1'', ''l'', ''!'']),
     (CHR ''o'', [''0'']),
     (CHR ''s'', [''5'', ''$'']),
     (CHR ''l'', [''1'', ''i'']),
     (CHR ''t'', [''7''])]"

definition hasCharacterSubstitution :: "string \<Rightarrow> string \<Rightarrow> bool" where
  "hasCharacterSubstitution hostname targetDomain =
     list_ex (\<lambda>(ch, subs).
        list_ex (\<lambda>sub. str_includes hostname (replace_all ch sub targetDomain)) subs)
       substitutions"

definition commonTLDs :: "string list" where
  "commonTLDs = [''.com'', ''.net'', ''.org'', ''.co'', ''.io'']"

definition isTyposquatting :: "string \<Rightarrow> string \<Rightarrow> bool" where
  "isTyposquatting hostname domain =
     list_ex (\<lambda>targetDomain.
        if str_includes hostname targetDomain then
          (if list_ex (\<lambda>tld.
                 let expected = targetDomain @ tld
                 in if domain \<noteq> expected \<and> hostname \<noteq> expected then
                      (let distance = levenshteinDistance domain expected
                       in distance > 0 \<and> distance \<le> 2)
                    else False) commonTLDs
           then True
           else hasCharacterSubstitution hostname targetDomain)
        else False)
       TYPOSQUATTING_TARGETS"

definition hasLongDomain :: "string \<Rightarrow> bool" where
  "hasLongDomain hostname = (length hostname > 50)"

definition hasNonStandardPort :: "url_obj \<Rightarrow> bool" where
  "hasNonStandardPort u =
     (let port = u_port u
      in if port = [] then False else port \<notin> set [''80'', ''443'', ''8080'', ''8443''])"

definition isInsecure :: "string \<Rightarrow> bool" where
  "isInsecure protocol = (protocol = ''http:'')"

definition hasDangerousScheme :: "string \<Rightarrow> bool" where
  "hasDangerousScheme protocol =
     list_ex (\<lambda>scheme. protocol = scheme)
       [''javascript:'', ''data:'', ''blob:'', ''file:'', ''vbscript:'']"

definition hasUsernameInURL :: "string \<Rightarrow> bool" where
  "hasUsernameInURL username = (username \<noteq> [] \<and> length username > 0)"

definition hasSubdomainImpersonation :: "string \<Rightarrow> string \<Rightarrow> bool" where
  "hasSubdomainImpersonation hostname domain =
     list_ex (\<lambda>d. str_includes hostname d \<and> \<not> startsWith domain d)
       [''paypal'', ''amazon'', ''google'', ''microsoft'', ''apple'',
        ''facebook'', ''netflix'', ''instagram'', ''twitter'', ''linkedin'',
        ''bankofamerica'', ''chase'', ''wellsfargo'', ''citibank'']"

definition hasPathSpoofing :: "url_obj \<Rightarrow> bool" where
  "hasPathSpoofing u =
     (let path = u_pathname u
      in list_ex (\<lambda>d. str_includes path d)
           [''paypal.com'', ''amazon.com'', ''google.com'', ''microsoft.com'',
            ''apple.com'', ''facebook.com'', ''netflix.com'', ''bankofamerica.com'',
            ''chase.com'', ''wellsfargo.com''])"

definition hasDoubleEncoding :: "string \<Rightarrow> bool" where
  "hasDoubleEncoding u = regex_test False [Lits [''%25'']] u"

definition hasPunycode :: "string \<Rightarrow> bool" where
  "hasPunycode hostname = regex_test False [Lits [''xn--'']] hostname"

definition push_if :: "bool \<Rightarrow> issue \<Rightarrow> issue list \<Rightarrow> issue list" where
  "push_if c i issues = (if c then issues @ [i] else issues)"

definition getIssues :: "URLParser \<Rightarrow> issue list" where
  "getIssues p =
    (case parsed p of
       None \<Rightarrow> [mk_issue ''invalid_url'' High ''Invalid URL format'']
     | Some u \<Rightarrow>
        (let hostname = toLowerCase (u_hostname u);
             domain = extractDomain hostname;
             protocol = u_protocol u;
             issues = [];
             issues = push_if (hasDangerousScheme protocol)
               (mk_issue ''dangerous_scheme'' High
                  ''URL uses dangerous protocol (javascript/data/blob/file)'') issues;
             issues = push_if (hasUsernameInURL (u_username u))
               (mk_issue ''username_in_url'' High
                  ''URL contains username (common phishing technique)'') issues;
             issues = push_if (hasSubdomainImpersonation hostname domain)
               (mk_issue ''subdomain_impersonation'' High
                  ''Popular brand appears as subdomain (spoofing attempt)'') issues;
             issues = push_if (hasPathSpoofing u)
               (mk_issue ''path_spoofing'' High
                  ''Trusted domain name appears in URL path (deception technique)'') issues;
             issues = push_if (hasDoubleEncoding (p_url p))
               (mk_issue ''double_encoding'' High
                  ''URL contains double-encoded characters (obfuscation attempt)'') issues;
             issues = push_if (hasPunycode hostname)
               (mk_issue ''punycode'' Medium
                  ''URL uses internationalized domain name (possible homograph attack)'') issues;
             issues = push_if (isIPAddress hostname)
               (mk_issue ''ip_address'' High
                  ''URL uses IP address instead of domain name'') issues;
             issues = push_if (hasSuspiciousTLD hostname)
               (mk_issue ''suspicious_tld'' Medium
                  ''URL uses a suspicious top-level domain'') issues;
             issues = push_if (hasEncodedChars (p_url p))
               (mk_issue ''encoded_chars'' Medium ''URL contains encoded characters'') issues;
             issues = push_if (hasMultipleDots hostname)
               (mk_issue ''multiple_dots'' Low ''URL has unusual dot patterns'') issues;
             issues = push_if (isURLShortener domain)
               (mk_issue ''url_shortener'' Low ''URL is shortened (destination unknown)'') issues;
             issues = push_if (hasHomographAttack hostname)
               (mk_issue ''homograph'' High ''URL contains lookalike characters'') issues;
             issues = push_if (isTyposquatting hostname domain)
               (mk_issue ''typosquatting'' High ''URL appears to mimic a popular domain'') issues;
             issues = push_if (hasLongDomain hostname)
               (mk_issue ''long_domain'' Low ''URL has an unusually long domain'') issues;
             issues = push_if (hasNonStandardPort u)
               (mk_issue ''non_standard_port'' Medium ''URL uses non-standard port'') issues;
             issues = push_if (isInsecure protocol)
               (mk_issue ''insecure'' Medium ''URL uses insecure HTTP protocol'') issues
         in issues))"

definition count_severity :: "severity \<Rightarrow> issue list \<Rightarrow> nat" where
  "count_severity s issues = length (filter (\<lambda>i. severity i = s) issues)"

definition getThreatLevel :: "URLParser \<Rightarrow> error + threat_level" where
  "getThreatLevel p =
     (let issues = getIssues p
      in case isLegitimate p of
           Inl e \<Rightarrow> Inl e
         | Inr legitimate \<Rightarrow>
             if legitimate then Inr Safe
             else
               (let highSeverity = count_severity High issues;
                    mediumSeverity = count_severity Medium issues
                in if highSeverity \<ge> 2 \<or> (highSeverity \<ge> 1 \<and> mediumSeverity \<ge> 1)
                     then Inr Dangerous
                   else if highSeverity \<ge> 1 \<or> mediumSeverity \<ge> 2 then Inr Suspicious
                   else if length issues > 0 then Inr Suspicious
                   else Inr Unknown))"

section \<open>The heuristic pattern scorer (pattern-detector.js)\<close>

record features =
  urlLength :: nat
  domainLength :: nat
  pathLength :: nat
  paramCount :: nat
  digitCount :: nat
  specialCharCount :: nat
  uppercaseCount :: nat
  subdomainCount :: int
  hasDash :: bool
  hasUnderscore :: bool
  hasIP :: bool
  hasPort :: bool
  hasAtSymbol :: bool
  isHTTPS :: bool
  tld :: string
  isCommonTLD :: bool
  entropy :: real
  suspiciousKeywords :: nat

text \<open>Shannon entropy of the character frequencies.  The source computes it in floating
  point; the model computes it over the reals.\<close>

definition calculateEntropy :: "string \<Rightarrow> real" where
  "calculateEntropy str =
     (let len = length str
      in fold (\<lambda>ch entropy.
                 let p = real (count_list str ch) / real len
                 in entropy - p * log 2 p)
           (remdups str) 0)"

definition countSuspiciousKeywords :: "string \<Rightarrow> nat" where
  "countSuspiciousKeywords u =
     (let keywords =
        [''login'', ''signin'', ''account'', ''verify'', ''secure'', ''update'',
         ''confirm'', ''banking'', ''paypal'', ''amazon'', ''microsoft'', ''apple'',
         ''password'', ''suspended'', ''locked'', ''urgent'', ''alert''];
          lowerUrl = toLowerCase u
      in length (filter (\<lambda>keyword. str_includes lowerUrl keyword) keywords))"

definition extractFeatures :: "url_ctor \<Rightarrow> string \<Rightarrow> features option" where
  "extractFeatures URL u =
    (case URL u of
       None \<Rightarrow> None
     | Some urlObj \<Rightarrow> Some
        \<lparr>urlLength = length u,
         domainLength = length (u_hostname urlObj),
         pathLength = length (u_pathname urlObj),
         paramCount = length (u_searchParams urlObj),
         digitCount = length (filter is_digit u),
         specialCharCount = length (filter (\<lambda>c. \<not> (is_lower c \<or> is_upper c \<or> is_digit c)) u),
         uppercaseCount = length (filter is_upper u),
         subdomainCount = int (length (split_dot (u_hostname urlObj))) - 2,
         hasDash = str_includes (u_hostname urlObj) ''-'',
         hasUnderscore = str_includes (u_hostname urlObj) ''_'',
         hasIP = regex_test False
                   [d13, Lits [''.''], d13, Lits [''.''], d13, Lits [''.''], d13]
                   (u_hostname urlObj),
         hasPort = (u_port urlObj \<noteq> []),
         hasAtSymbol = str_includes u ''@'',
         isHTTPS = (u_protocol urlObj = ''https:''),
         tld = last (split_dot (u_hostname urlObj)),
         isCommonTLD = (last (split_dot (u_hostname urlObj))
                          \<in> set [''com'', ''org'', ''net'', ''edu'', ''gov'']),
         entropy = calculateEntropy (u_hostname urlObj),
         suspiciousKeywords = countSuspiciousKeywords u\<rparr>)"

definition add_if :: "bool \<Rightarrow> nat \<Rightarrow> nat \<Rightarrow> nat" where
  "add_if c w score = (if c then score + w else score)"

definition calculatePhishingScore :: "features option \<Rightarrow> nat" where
  "calculatePhishingScore fo =
    (case fo of
       None \<Rightarrow> 0
     | Some f \<Rightarrow>
        (let score = 0;
             score = add_if (urlLength f > 75) 2 score;
             score = add_if (urlLength f > 100) 3 score;
             score = add_if (domainLength f > 30) 2 score;
             score = add_if (digitCount f > 8) 2 score;
             score = add_if (specialCharCount f > 10) 2 score;
             score = add_if (real (uppercaseCount f) > real (domainLength f) * 0.5) 1 score;
             score = add_if (subdomainCount f > 3) 3 score;
             score = add_if (hasDash f) 1 score;
             score = add_if (hasUnderscore f) 2 score;
             score = add_if (hasIP f) 5 score;
             score = add_if (hasPort f) 2 score;
             score = add_if (hasAtSymbol f) 4 score;
             score = add_if (\<not> isHTTPS f) 3 score;
             score = add_if (\<not> isCommonTLD f) 2 score;
             score = add_if (tld f \<in> set [''tk'', ''ml'', ''ga'', ''cf'', ''gq'', ''top'', ''xyz'']) 3 score;
             score = add_if (entropy f > 4.5) 2 score;
             score = add_if (entropy f > 5) 3 score;
             score = score + suspiciousKeywords f * 2
         in min score 100))"

text \<open>The weight table as the specification lists it, and the score it describes.\<close>

definition spec_weight_table :: "features \<Rightarrow> (bool \<times> nat) list" where
  "spec_weight_table f =
    [(urlLength f > 75, 2), (urlLength f > 100, 3), (domainLength f > 30, 2),
     (digitCount f > 8, 2), (specialCharCount f > 10, 2),
     (real (uppercaseCount f) > 0.5 * real (domainLength f), 1),
     (subdomainCount f > 3, 3), (hasDash f, 1), (hasUnderscore f, 2), (hasIP f, 5),
     (hasPort f, 2), (hasAtSymbol f, 4), (\<not> isHTTPS f, 3), (\<not> isCommonTLD f, 2),
     (tld f \<in> {''tk'', ''ml'', ''ga'', ''cf'', ''gq'', ''top'', ''xyz''}, 3),
     (entropy f > 4.5, 2), (entropy f > 5, 3)]"

definition spec_score :: "features \<Rightarrow> nat" where
  "spec_score f =
     min (sum_list (map snd (filter fst (spec_weight_table f))) + 2 * suspiciousKeywords f) 100"

record classification =
  c_classification :: string
  c_confidence :: real
  c_threatLevel :: string

definition classify :: "nat \<Rightarrow> classification" where
  "classify score =
     (if score \<ge> 15 then
        \<lparr>c_classification = ''phishing'', c_confidence = min (real score / 20) 1.0,
         c_threatLevel = ''DANGEROUS''\<rparr>
      else if score \<ge> 8 then
        \<lparr>c_classification = ''suspicious'', c_confidence = real score / 15,
         c_threatLevel = ''SUSPICIOUS''\<rparr>
      else if score \<ge> 4 then
        \<lparr>c_classification = ''potentially_suspicious'', c_confidence = real score / 10,
         c_threatLevel = ''SUSPICIOUS''\<rparr>
      else
        \<lparr>c_classification = ''legitimate'', c_confidence = 1 - real score / 10,
         c_threatLevel = ''SAFE''\<rparr>)"

record pattern =
  regex :: "elem list"
  pt_score :: nat
  description :: string

record pattern_match =
  pm_description :: string
  pm_score :: nat

definition label_class :: "char \<Rightarrow> bool" where
  "label_class c = (is_lower c \<or> is_digit c \<or> c = CHR ''-'')"

definition known_patterns :: "pattern list" where
  "known_patterns =
    [\<lparr>regex = [Lits [''login'', ''signin''], any_star, Lits [''.''],
               Lits [''tk'', ''ml'', ''ga'', ''cf'', ''gq'']],
      pt_score = 10, description = ''Fake login page pattern''\<rparr>,
     \<lparr>regex = [d13, Lits [''.''], d13, Lits [''.''], d13, Lits [''.''], d13, any_star,
               Lits [''login'', ''account'', ''verify'']],
      pt_score = 15, description = ''IP-based phishing page''\<rparr>,
     \<lparr>regex = [Lits [''paypal'', ''amazon'', ''microsoft'', ''apple'', ''google''], any_star,
               Lits [''.''], Lits [''tk'', ''ml'', ''ga'', ''xyz'']],
      pt_score = 12, description = ''Brand impersonation on suspicious TLD''\<rparr>,
     \<lparr>regex = [Rep label_class 1 None, Lits [''.''], Rep label_class 1 None, Lits [''.''],
               Rep label_class 1 None, Lits [''.''],
               Lits [''paypal'', ''amazon'', ''microsoft'']],
      pt_score = 8, description = ''Suspicious subdomain structure''\<rparr>,
     \<lparr>regex = [Lits [''secure'', ''verify'', ''update''], any_star, Rep is_digit 3 None],
      pt_score = 6, description = ''Potential data collection page''\<rparr>]"

record known_match =
  km_score :: nat
  km_matches :: "pattern_match list"
  km_hasMatch :: bool

definition matchKnownPatterns :: "string \<Rightarrow> known_match" where
  "matchKnownPatterns u =
     (let (totalScore, matches) =
        fold (\<lambda>pat (totalScore, matches).
                if regex_test True (regex pat) u
                then (totalScore + pt_score pat,
                      matches @ [\<lparr>pm_description = description pat, pm_score = pt_score pat\<rparr>])
                else (totalScore, matches))
          known_patterns (0, [])
      in \<lparr>km_score = totalScore, km_matches = matches, km_hasMatch = (length matches > 0)\<rparr>)"

text \<open>The result of \<^verbatim>\<open>PatternDetector.analyze\<close>.  Its \<^verbatim>\<open>analysis\<close> summary, which no
  caller reads, is left out.  The fields absent from the error result are \<open>None\<close>.\<close>

record ml_analysis =
  ml_score :: nat
  ml_baseScore :: "nat option"
  ml_patternScore :: "nat option"
  ml_classification :: string
  ml_confidence :: real
  ml_threatLevel :: "string option"
  ml_features :: "features option"
  ml_patterns :: "pattern_match list option"

definition analyze :: "url_ctor \<Rightarrow> string \<Rightarrow> ml_analysis" where
  "analyze URL u =
    (case extractFeatures URL u of
       None \<Rightarrow>
        \<lparr>ml_score = 0, ml_baseScore = None, ml_patternScore = None,
         ml_classification = ''error'', ml_confidence = 0, ml_threatLevel = None,
         ml_features = None, ml_patterns = None\<rparr>
     | Some f \<Rightarrow>
        (let baseScore = calculatePhishingScore (Some f);
             patternMatch = matchKnownPatterns u;
             totalScore = baseScore + km_score patternMatch;
             cl = classify totalScore
         in \<lparr>ml_score = totalScore, ml_baseScore = Some baseScore,
              ml_patternScore = Some (km_score patternMatch),
              ml_classification = c_classification cl, ml_confidence = c_confidence cl,
              ml_threatLevel = Some (c_threatLevel cl),
              ml_features = Some f, ml_patterns = Some (km_matches patternMatch)\<rparr>))"

section \<open>Protocol checks (ssl-validator.js)\<close>

fun parseInt_digits :: "string \<Rightarrow> nat \<Rightarrow> nat" where
  "parseInt_digits [] acc = acc"
| "parseInt_digits (c # cs) acc =
     (if is_digit c then parseInt_digits cs (10 * acc + (code c - 48)) else acc)"

definition ssl_issue :: "string \<Rightarrow> severity \<Rightarrow> string \<Rightarrow> string \<Rightarrow> issue" where
  "ssl_issue t s m r =
     \<lparr>itype = t, severity = s, message = m, i_mlScore = None, recommendation = Some r\<rparr>"

text \<open>The issue list of \<^verbatim>\<open>SSLValidator.validateURL\<close>.  \<open>window_protocol\<close> is
  \<^verbatim>\<open>window.location.protocol\<close>, \<open>None\<close> where there is no \<^verbatim>\<open>window\<close>.  A port is a
  string of digits, so \<^verbatim>\<open>parseInt\<close> reads all of it.\<close>

definition validateURL :: "url_ctor \<Rightarrow> string option \<Rightarrow> string \<Rightarrow> issue list" where
  "validateURL URL window_protocol u =
    (case URL u of
       None \<Rightarrow> [mk_issue ''validation_error'' Medium ''Unable to validate URL security'']
     | Some urlObj \<Rightarrow>
        (let issues = [];
             issues = push_if (u_protocol urlObj = ''http:'')
               (ssl_issue ''insecure_protocol'' High ''Insecure HTTP connection (not encrypted)''
                  ''Always use HTTPS for sensitive data'') issues;
             isLocalhost = (u_hostname urlObj = ''localhost'' \<or> u_hostname urlObj = ''127.0.0.1''
                            \<or> endsWith (u_hostname urlObj) ''.local'');
             issues = (if isLocalhost \<and> u_protocol urlObj = ''http:''
                       then (case rev issues of
                               [] \<Rightarrow> issues
                             | lastIssue # before \<Rightarrow>
                                 if itype lastIssue = ''insecure_protocol''
                                 then rev before @
                                   [lastIssue\<lparr>severity := Low,
                                      message := ''HTTP on localhost (acceptable for development)''\<rparr>]
                                 else issues)
                       else issues);
             issues = push_if (window_protocol = Some ''https:'' \<and> u_protocol urlObj = ''http:'')
               (ssl_issue ''mixed_content'' High ''HTTP resource on HTTPS page (blocked by browser)''
                  ''Use HTTPS version of this resource'') issues;
             issues = push_if
               ((if u_port urlObj \<noteq> [] then parseInt_digits (u_port urlObj) 0 else 0)
                  \<in> set [21, 23, 25, 110, 143, 445, 3389])
               (ssl_issue ''dangerous_port'' High
                  (''Suspicious port '' @ u_port urlObj @ '' (commonly used for attacks)'')
                  ''Avoid clicking links with unusual ports'') issues;
             issues = push_if (map_of (u_searchParams urlObj) ''ssl'' = Some ''false'')
               (ssl_issue ''ssl_disabled'' High ''SSL explicitly disabled in URL parameters''
                  ''Do not proceed with this link'') issues
         in issues))"

section \<open>JavaScript values\<close>

text \<open>
  The values a whitelist or blacklist entry and the \<^verbatim>\<open>context\<close> argument can be: what
  JSON holds.  A number is given by the decimal string JavaScript converts it to, an
  object is a plain object.  \<open>truthy\<close> is the test of \<^verbatim>\<open>!x\<close> and \<^verbatim>\<open>||\<close>, \<open>ToString\<close> the
  conversion \<^verbatim>\<open>String.prototype.includes\<close> applies to its argument (an array is joined
  with commas, a null element giving the empty string).
\<close>

datatype js_value =
  JNull | JBool bool | JNumber string | JString string | JArray "js_value list" | JObject

fun truthy :: "js_value \<Rightarrow> bool" where
  "truthy JNull = False"
| "truthy (JBool b) = b"
| "truthy (JNumber s) = (s \<noteq> ''0'' \<and> s \<noteq> ''NaN'')"
| "truthy (JString s) = (s \<noteq> [])"
| "truthy (JArray xs) = True"
| "truthy JObject = True"

fun join_comma :: "string list \<Rightarrow> string" where
  "join_comma [] = []"
| "join_comma [x] = x"
| "join_comma (x # y # ys) = x @ '','' @ join_comma (y # ys)"

fun ToString :: "js_value \<Rightarrow> string" where
  "ToString JNull = ''null''"
| "ToString (JBool b) = (if b then ''true'' else ''false'')"
| "ToString (JNumber s) = s"
| "ToString (JString s) = s"
| "ToString (JArray xs) = join_comma (map (\<lambda>x. if x = JNull then [] else ToString x) xs)"
| "ToString JObject = ''[object Object]''"

text \<open>The method call \<^verbatim>\<open>d.includes(domain)\<close> on a value \<^verbatim>\<open>d\<close>, for a string
  \<^verbatim>\<open>domain\<close>: the substring test of a string, the membership test of an array; null
  has no properties, and a boolean, a number or a plain object has no method
  \<^verbatim>\<open>includes\<close>.\<close>

fun method_includes :: "js_value \<Rightarrow> string \<Rightarrow> error + bool" where
  "method_includes (JString s) dn = Inr (str_includes s dn)"
| "method_includes (JArray xs) dn = Inr (List.member xs (JString dn))"
| "method_includes JNull dn = Inl (TypeError ''Cannot read properties of null'')"
| "method_includes d dn = Inl (TypeError ''d.includes is not a function'')"

section \<open>Analysis results and the stores (storage.js)\<close>

text \<open>
  The object \<^verbatim>\<open>analyzeLink\<close> returns and caches.  A field the source leaves out of an
  object is \<open>None\<close> (or \<open>False\<close> for the flags that are only ever set to true).
\<close>

record analysis =
  url :: string
  domain :: "string option"
  hostname :: "string option"
  threatLevel :: threat_level
  issues :: "issue list"
  r_isLegitimate :: "bool option"
  mlScore :: "nat option"
  mlConfidence :: "real option"
  mlClassification :: "string option"
  contextScore :: "nat option"
  r_isWhitelisted :: bool
  r_isBlacklisted :: bool
  isPhishTankMatch :: bool
  phishTankVerified :: "bool option"
  verified :: "bool option"
  timestamp :: "int option"
  error :: "string option"

definition new_analysis :: "string \<Rightarrow> threat_level \<Rightarrow> issue list \<Rightarrow> analysis" where
  "new_analysis u lvl is =
     \<lparr>url = u, domain = None, hostname = None, threatLevel = lvl, issues = is,
      r_isLegitimate = None, mlScore = None, mlConfidence = None, mlClassification = None,
      contextScore = None, r_isWhitelisted = False, r_isBlacklisted = False,
      isPhishTankMatch = False, phishTankVerified = None, verified = None,
      timestamp = None, error = None\<rparr>"

definition analyzeURL :: "url_ctor \<Rightarrow> string \<Rightarrow> error + analysis" where
  "analyzeURL URL u =
     (let parser = new_URLParser URL u
      in case getThreatLevel parser of
           Inl e \<Rightarrow> Inl e
         | Inr lvl \<Rightarrow>
             (case isLegitimate parser of
                Inl e \<Rightarrow> Inl e
              | Inr legitimate \<Rightarrow>
                  Inr ((new_analysis u lvl (getIssues parser))
                         \<lparr>domain := this_domain parser, hostname := this_hostname parser,
                          r_isLegitimate := Some legitimate\<rparr>)))"

record stats =
  linksScanned :: nat
  threatsBlocked :: nat
  lastScan :: "int option"

text \<open>
  The extension's storage.  \<open>local_fails\<close> and \<open>sync_fails\<close> say that the calls of
  \<^verbatim>\<open>chrome.storage.local\<close> and \<^verbatim>\<open>chrome.storage.sync\<close> reject (a store I/O error).
  \<open>notifications\<close> is the list of notifications shown, \<open>threatLog\<close> the threats handed to
  the analytics counters, which are kept in local storage as well.
\<close>

record store =
  threatCache :: "(string \<times> analysis) list"
  whitelist :: "js_value list"
  blacklist :: "js_value list"
  stats :: stats
  notifications :: "(string \<times> threat_level \<times> nat) list"
  threatLog :: "(threat_level \<times> string list) list"
  local_fails :: bool
  sync_fails :: bool

definition getWhitelist :: "store \<Rightarrow> js_value list" where
  "getWhitelist st = (if sync_fails st then [] else whitelist st)"

definition removeFromWhitelist :: "store \<Rightarrow> string \<Rightarrow> store" where
  "removeFromWhitelist st d =
     (if sync_fails st then st
      else st\<lparr>whitelist := filter (\<lambda>x. x \<noteq> JString d) (getWhitelist st)\<rparr>)"

text \<open>\<^verbatim>\<open>list.some(d => domain.includes(d) || d.includes(domain))\<close>, as \<^verbatim>\<open>isWhitelisted\<close>
  and \<^verbatim>\<open>isBlacklisted\<close> call it.  Neither function has a \<^verbatim>\<open>try\<close> block: an entry that
  is not a string and whose string conversion does not occur in the domain makes the
  call throw.\<close>

fun some_includes :: "string \<Rightarrow> js_value list \<Rightarrow> error + bool" where
  "some_includes dn [] = Inr False"
| "some_includes dn (d # ds) =
     (if str_includes dn (ToString d) then Inr True
      else case method_includes d dn of
             Inl er \<Rightarrow> Inl er
           | Inr b \<Rightarrow> if b then Inr True else some_includes dn ds)"

definition isWhitelisted :: "store \<Rightarrow> string \<Rightarrow> error + bool" where
  "isWhitelisted st dn = some_includes dn (getWhitelist st)"

definition getBlacklist :: "store \<Rightarrow> js_value list" where
  "getBlacklist st = (if sync_fails st then [] else blacklist st)"

definition isBlacklisted :: "store \<Rightarrow> string \<Rightarrow> error + bool" where
  "isBlacklisted st dn = some_includes dn (getBlacklist st)"

text \<open>\<^verbatim>\<open>getCachedThreat\<close> removes an entry older than the retention time of its level and
  answers null for it.  An entry without a timestamp has the age \<^verbatim>\<open>NaN\<close>, which is not
  greater than any retention time.\<close>

definition getCachedThreat :: "int \<Rightarrow> store \<Rightarrow> string \<Rightarrow> analysis option \<times> store" where
  "getCachedThreat now st u =
     (if local_fails st then (None, st)
      else case map_of (threatCache st) u of
          None \<Rightarrow> (None, st)
        | Some cached \<Rightarrow>
            (let maxAge = (case CACHE_DURATION (threatLevel cached) of
                             Some d \<Rightarrow> d | None \<Rightarrow> 3600000);
                 expired = (case timestamp cached of
                              None \<Rightarrow> False | Some t \<Rightarrow> now - t > maxAge)
             in if expired
                then (None, st\<lparr>threatCache := filter (\<lambda>(k, v). k \<noteq> u) (threatCache st)\<rparr>)
                else (Some cached, st)))"

fun assoc_set :: "string \<Rightarrow> analysis \<Rightarrow> (string \<times> analysis) list \<Rightarrow> (string \<times> analysis) list" where
  "assoc_set k v [] = [(k, v)]"
| "assoc_set k v ((k', v') # kvs) =
     (if k = k' then (k, v) # kvs else (k', v') # assoc_set k v kvs)"

text \<open>\<^verbatim>\<open>cacheThreat\<close> stores a copy stamped with the current time and keeps the 1000 newest
  entries.  Every entry it writes has a timestamp; one without counts as 0 in the sort.\<close>

definition cacheThreat :: "int \<Rightarrow> store \<Rightarrow> string \<Rightarrow> analysis \<Rightarrow> store" where
  "cacheThreat now st u a =
     (if local_fails st then st
      else
        (let cache = assoc_set u (a\<lparr>timestamp := Some now\<rparr>) (threatCache st)
         in if length cache > 1000
            then st\<lparr>threatCache :=
                   drop (length cache - 1000)
                     (sort_key (\<lambda>(k, v). case timestamp v of Some t \<Rightarrow> t | None \<Rightarrow> 0) cache)\<rparr>
            else st\<lparr>threatCache := cache\<rparr>))"

definition getStats :: "store \<Rightarrow> stats" where
  "getStats st =
     (if local_fails st then \<lparr>linksScanned = 0, threatsBlocked = 0, lastScan = None\<rparr>
      else stats st)"

definition updateStats :: "store \<Rightarrow> (stats \<Rightarrow> stats) \<Rightarrow> store" where
  "updateStats st updates = (if local_fails st then st else st\<lparr>stats := updates (getStats st)\<rparr>)"

definition incrementScanned :: "int \<Rightarrow> store \<Rightarrow> store" where
  "incrementScanned now st =
     (let s = getStats st
      in updateStats st (\<lambda>x. x\<lparr>linksScanned := linksScanned s + 1, lastScan := Some now\<rparr>))"

definition incrementBlocked :: "store \<Rightarrow> store" where
  "incrementBlocked st =
     (let s = getStats st
      in updateStats st (\<lambda>x. x\<lparr>threatsBlocked := threatsBlocked s + 1\<rparr>))"

text \<open>\<^verbatim>\<open>NotificationManager.showThreatBlocked\<close> builds a \<^verbatim>\<open>URL\<close> first, which throws on a
  malformed string, and notifies for the dangerous and suspicious levels only.\<close>

definition showThreatBlocked ::
  "url_ctor \<Rightarrow> store \<Rightarrow> string \<Rightarrow> threat_level \<Rightarrow> nat \<Rightarrow> error + store" where
  "showThreatBlocked URL st u lvl issueCount =
     (case URL u of
        None \<Rightarrow> Inl (TypeError ''Invalid URL'')
      | Some urlObj \<Rightarrow>
          if lvl = Dangerous \<or> lvl = Suspicious
          then Inr (st\<lparr>notifications := notifications st @ [(u, lvl, issueCount)]\<rparr>)
          else Inr st)"

definition recordThreat :: "store \<Rightarrow> threat_level \<Rightarrow> string list \<Rightarrow> store" where
  "recordThreat st lvl issueTypes =
     (if local_fails st then st else st\<lparr>threatLog := threatLog st @ [(lvl, issueTypes)]\<rparr>)"

section \<open>The threat aggregator (phishing-detector.js)\<close>

text \<open>
  The reputation lookup \<^verbatim>\<open>ThreatIntelligence.checkPhishTank\<close> runs in a worker against a
  downloaded database and never throws; its answer for a URL is a parameter of the
  model, as are the \<^verbatim>\<open>URL\<close> class and the page's protocol.  \<^verbatim>\<open>Date.now()\<close> is the
  parameter \<open>now\<close>, read once for the whole call.
\<close>

record pt_result =
  found :: bool
  pt_verified :: bool
  pt_source :: string

record env =
  env_URL :: url_ctor
  env_checkPhishTank :: "string \<Rightarrow> pt_result"
  env_window_protocol :: "string option"

definition isCacheValid :: "int \<Rightarrow> analysis option \<Rightarrow> bool" where
  "isCacheValid now cached =
     (case cached of
        None \<Rightarrow> False
      | Some c \<Rightarrow>
         (case timestamp c of
            None \<Rightarrow> False
          | Some t \<Rightarrow>
              if t = 0 then False
              else
                (let age = now - t; maxAge = 86400000
                 in if threatLevel c = Dangerous then age < 3600000 else age < maxAge)))"

definition verifyWhitelistedDomain :: "url_ctor \<Rightarrow> string \<Rightarrow> bool" where
  "verifyWhitelistedDomain URL dn =
     (let testUrl = ''https://'' @ dn
      in case analyzeURL URL testUrl of
           Inl e \<Rightarrow> False
         | Inr a \<Rightarrow> length (filter (\<lambda>i. severity i = High) (issues a)) = 0)"

text \<open>\<^verbatim>\<open>analyzeContext\<close> on a string.\<close>

definition analyzeContext :: "string \<Rightarrow> nat" where
  "analyzeContext text =
     (if text = [] then 0
      else
        (let lowerText = toLowerCase text;
             score = length (filter (\<lambda>keyword. str_includes lowerText keyword) PHISHING_KEYWORDS);
             spamScore = 3 * length (filter (\<lambda>spamWord. str_includes lowerText spamWord)
                                      SPAM_INDICATORS);
             totalScore = score + spamScore
         in totalScore))"

text \<open>The same function on any value: a falsy one scores 0, and one that is truthy and
  not a string has no method \<^verbatim>\<open>toLowerCase\<close>, so that the call throws.\<close>

definition analyzeContext_value :: "js_value \<Rightarrow> error + nat" where
  "analyzeContext_value text =
     (if \<not> truthy text then Inr 0
      else case text of
             JString s \<Rightarrow> Inr (analyzeContext s)
           | _ \<Rightarrow> Inl (TypeError ''text.toLowerCase is not a function''))"

text \<open>In \<^verbatim>\<open>calculateFinalThreatLevel\<close> an absent \<^verbatim>\<open>contextScore\<close> adds nothing and
  passes no threshold.\<close>

definition calculateFinalThreatLevel :: "analysis \<Rightarrow> threat_level" where
  "calculateFinalThreatLevel a =
     (if r_isLegitimate a = Some True then Safe
      else
        (let highCount = count_severity High (issues a);
             mediumCount = count_severity Medium (issues a);
             lowCount = count_severity Low (issues a);
             score = highCount * 3 + mediumCount * 2 + lowCount;
             score = (case contextScore a of
                        None \<Rightarrow> score
                      | Some c \<Rightarrow> if c \<noteq> 0 then score + c else score)
         in if (case contextScore a of None \<Rightarrow> False | Some c \<Rightarrow> c \<ge> 9) then Dangerous
            else if (case contextScore a of None \<Rightarrow> False | Some c \<Rightarrow> c \<ge> 5) then Suspicious
            else if score \<ge> 5 \<or> highCount \<ge> 2 then Dangerous
            else if score \<ge> 2 \<or> highCount \<ge> 1 \<or> mediumCount \<ge> 2 then Suspicious
            else if length (issues a) > 0 then Suspicious
            else Unknown))"

text \<open>The cached result \<^verbatim>\<open>analyzeLink\<close> answers with, given what \<^verbatim>\<open>getCachedThreat\<close>
  returned: a valid entry, unless it is dangerous or suspicious and older than its
  re-verification age.\<close>

definition cached_answer :: "int \<Rightarrow> analysis option \<Rightarrow> analysis option" where
  "cached_answer now cached =
     (case cached of
        None \<Rightarrow> None
      | Some c \<Rightarrow>
          if isCacheValid now (Some c) then
            (if threatLevel c = Dangerous \<or> threatLevel c = Suspicious then
               (let maxAge = (if threatLevel c = Dangerous then 3600000 else 21600000)
                in if (case timestamp c of None \<Rightarrow> False | Some t \<Rightarrow> now - t > maxAge)
                   then None else Some c)
             else Some c)
          else None)"

definition ml_pattern_issue :: "pattern_match \<Rightarrow> issue" where
  "ml_pattern_issue pat =
     \<lparr>itype = ''ml_pattern'',
      severity = (if pm_score pat > 10 then High else Medium),
      message = ''ML detected: '' @ pm_description pat,
      i_mlScore = Some (pm_score pat), recommendation = None\<rparr>"

definition ml_high_risk_issue :: "ml_analysis \<Rightarrow> issue" where
  "ml_high_risk_issue m =
     \<lparr>itype = ''ml_high_risk'', severity = High,
      message = ''ML detected high-risk patterns (confidence: ''
                  @ show_nat (nat (round (ml_confidence m * 100))) @ ''%)'',
      i_mlScore = Some (ml_score m), recommendation = None\<rparr>"

definition add_ml :: "ml_analysis \<Rightarrow> analysis \<Rightarrow> analysis" where
  "add_ml m a =
     (if ml_score m > 0 then
        (let a = a\<lparr>mlScore := Some (ml_score m), mlConfidence := Some (ml_confidence m),
                   mlClassification := Some (ml_classification m)\<rparr>;
             a = (case ml_patterns m of
                    None \<Rightarrow> a
                  | Some pats \<Rightarrow> a\<lparr>issues := issues a @ map ml_pattern_issue pats\<rparr>);
             a = (if ml_score m \<ge> 15 then a\<lparr>issues := issues a @ [ml_high_risk_issue m]\<rparr> else a)
         in a)
      else a)"

definition context_issue :: "nat \<Rightarrow> issue" where
  "context_issue cs =
     (if cs \<ge> 9 then
        mk_issue ''suspicious_context'' High ''SPAM: Multiple spam indicators detected in email''
      else if cs \<ge> 5 then
        mk_issue ''suspicious_context'' High
          ''Link appears in highly suspicious context with spam indicators''
      else if cs \<ge> 3 then
        mk_issue ''suspicious_context'' Medium ''Link appears in suspicious phishing context''
      else mk_issue ''suspicious_context'' Low ''Link appears in suspicious context'')"

text \<open>\<^verbatim>\<open>context || url\<close>: a missing (\<open>None\<close>) or falsy context gives way to the URL.\<close>

definition context_or_url :: "js_value option \<Rightarrow> string \<Rightarrow> js_value" where
  "context_or_url context u =
     (case context of None \<Rightarrow> JString u | Some c \<Rightarrow> if truthy c then c else JString u)"

text \<open>The local analysis of \<^verbatim>\<open>analyzeLink\<close>, from the call of \<^verbatim>\<open>analyzeURL\<close> to the
  final threat level.\<close>

definition local_analysis :: "env \<Rightarrow> string \<Rightarrow> js_value option \<Rightarrow> error + analysis" where
  "local_analysis e u context =
     (case analyzeURL (env_URL e) u of
        Inl er \<Rightarrow> Inl er
      | Inr a \<Rightarrow>
         (let mlAnalysis = analyze (env_URL e) u;
              a = add_ml mlAnalysis a;
              a = a\<lparr>issues := issues a @ validateURL (env_URL e) (env_window_protocol e) u\<rparr>
          in case analyzeContext_value (context_or_url context u) of
               Inl er \<Rightarrow> Inl er
             | Inr cs \<Rightarrow>
                (let a = (if cs > 0 then a\<lparr>issues := issues a @ [context_issue cs]\<rparr> else a);
                     a = a\<lparr>contextScore := Some cs\<rparr>;
                     a = a\<lparr>threatLevel := calculateFinalThreatLevel a\<rparr>
                 in Inr a)))"

text \<open>What \<^verbatim>\<open>analyzeLink\<close> does with a finished local analysis: cache, counters,
  notification, analytics.\<close>

definition publish :: "env \<Rightarrow> int \<Rightarrow> store \<Rightarrow> string \<Rightarrow> analysis \<Rightarrow> (error \<times> store) + store" where
  "publish e now st u a =
     (let st = cacheThreat now st u a;
          st = incrementScanned now st;
          notified =
            (if threatLevel a = Dangerous then
               (let st = incrementBlocked st
                in case showThreatBlocked (env_URL e) st u (threatLevel a) (length (issues a)) of
                     Inl er \<Rightarrow> Inl (er, st) | Inr st' \<Rightarrow> Inr st')
             else if threatLevel a = Suspicious
                     \<and> (case contextScore a of None \<Rightarrow> False | Some c \<Rightarrow> c \<ge> 5) then
               (case showThreatBlocked (env_URL e) st u (threatLevel a) (length (issues a)) of
                  Inl er \<Rightarrow> Inl (er, st) | Inr st' \<Rightarrow> Inr st')
             else Inr st)
      in case notified of
           Inl x \<Rightarrow> Inl x
         | Inr st \<Rightarrow> Inr (recordThreat st (threatLevel a) (map itype (issues a))))"

definition whitelisted_result :: "int \<Rightarrow> string \<Rightarrow> string \<Rightarrow> analysis" where
  "whitelisted_result now u dn =
     (new_analysis u Safe [])
       \<lparr>domain := Some dn, r_isWhitelisted := True, timestamp := Some now, verified := Some True\<rparr>"

definition blacklisted_result :: "int \<Rightarrow> string \<Rightarrow> string \<Rightarrow> analysis" where
  "blacklisted_result now u dn =
     (new_analysis u Dangerous [mk_issue ''blacklisted'' High ''Domain is in your blacklist''])
       \<lparr>domain := Some dn, r_isBlacklisted := True, timestamp := Some now\<rparr>"

definition phishTank_result :: "int \<Rightarrow> string \<Rightarrow> string \<Rightarrow> pt_result \<Rightarrow> analysis" where
  "phishTank_result now u dn pt =
     (new_analysis u Dangerous
        [mk_issue ''phishtank_match'' High
           (''Known phishing site (verified by '' @ pt_source pt
              @ (if pt_verified pt then '' - VERIFIED'' else []) @ '')'')])
       \<lparr>domain := Some dn, isPhishTankMatch := True, phishTankVerified := Some (pt_verified pt),
        timestamp := Some now\<rparr>"

text \<open>The part of the \<^verbatim>\<open>try\<close> block of \<^verbatim>\<open>analyzeLink\<close> after the whitelist check,
  from the blacklist check on: \<open>Inl\<close> is an error thrown inside it, with the store as it
  is at that moment.\<close>

definition analyzeLink_unlisted ::
  "env \<Rightarrow> int \<Rightarrow> store \<Rightarrow> string \<Rightarrow> js_value option \<Rightarrow> string
     \<Rightarrow> (error \<times> store) + (analysis \<times> store)" where
  "analyzeLink_unlisted e now st u context dn =
     (case isBlacklisted st dn of
        Inl er \<Rightarrow> Inl (er, st)
      | Inr listed \<Rightarrow>
         if listed then
           (let result = blacklisted_result now u dn;
                st = cacheThreat now st u result;
                st = incrementBlocked st
            in Inr (result, st))
         else
           (let phishTankResult = env_checkPhishTank e u
            in if found phishTankResult then
                 (let result = phishTank_result now u dn phishTankResult;
                      st = cacheThreat now st u result;
                      st = incrementBlocked st
                  in case showThreatBlocked (env_URL e) st u (threatLevel result) 1 of
                       Inl er \<Rightarrow> Inl (er, st)
                     | Inr st' \<Rightarrow> Inr (result, st'))
               else
                 (case local_analysis e u context of
                    Inl er \<Rightarrow> Inl (er, st)
                  | Inr a \<Rightarrow>
                      (case publish e now st u a of
                         Inl x \<Rightarrow> Inl x
                       | Inr st' \<Rightarrow> Inr (a, st')))))"

text \<open>The part of the \<^verbatim>\<open>try\<close> block after the cache lookup, from \<^verbatim>\<open>new URL(url)\<close> on.\<close>

definition analyzeLink_fresh ::
  "env \<Rightarrow> int \<Rightarrow> store \<Rightarrow> string \<Rightarrow> js_value option
     \<Rightarrow> (error \<times> store) + (analysis \<times> store)" where
  "analyzeLink_fresh e now st u context =
    (case env_URL e u of
       None \<Rightarrow> Inl (TypeError ''Invalid URL'', st)
     | Some urlObj \<Rightarrow>
        (let dn = u_hostname urlObj
         in case isWhitelisted st dn of
              Inl er \<Rightarrow> Inl (er, st)
            | Inr listed \<Rightarrow>
               if listed then
                 (let isStillSafe = verifyWhitelistedDomain (env_URL e) dn
                  in if \<not> isStillSafe then
                       analyzeLink_unlisted e now (removeFromWhitelist st dn) u context dn
                     else
                       (let result = whitelisted_result now u dn
                        in Inr (result, cacheThreat now st u result)))
               else analyzeLink_unlisted e now st u context dn))"

text \<open>The whole \<^verbatim>\<open>try\<close> block: the cache lookup first.\<close>

definition analyzeLink_try ::
  "env \<Rightarrow> int \<Rightarrow> store \<Rightarrow> string \<Rightarrow> js_value option
     \<Rightarrow> (error \<times> store) + (analysis \<times> store)" where
  "analyzeLink_try e now st0 u context =
    (let (cached, st) = getCachedThreat now st0 u
     in case cached_answer now cached of
          Some c \<Rightarrow> Inr (c, st)
        | None \<Rightarrow> analyzeLink_fresh e now st u context)"

definition error_message :: "error \<Rightarrow> string" where
  "error_message er = (case er of TypeError m \<Rightarrow> m)"

text \<open>\<^verbatim>\<open>analyzeLink\<close>: the \<^verbatim>\<open>try\<close> block and its \<^verbatim>\<open>catch\<close>.\<close>

definition analyzeLink ::
  "env \<Rightarrow> int \<Rightarrow> store \<Rightarrow> string \<Rightarrow> js_value option \<Rightarrow> analysis \<times> store" where
  "analyzeLink e now st u context =
     (case analyzeLink_try e now st u context of
        Inr r \<Rightarrow> r
      | Inl (er, st') \<Rightarrow>
          ((new_analysis u Unknown [mk_issue ''error'' Low ''Analysis failed''])
             \<lparr>error := Some (error_message er)\<rparr>, st'))"






text \<open>\<^verbatim>\<open>formatAnalysis\<close> copies the analysis and adds the display fields.  It has no
  \<^verbatim>\<open>try\<close> block and reads \<^verbatim>\<open>analysis.threatLevel\<close>: called without an analysis
  (\<open>None\<close>: null or undefined) it throws.\<close>

record formatted =
  f_analysis :: analysis
  color :: string
  icon :: "nat list"
  f_description :: string
  issueCount :: nat
  highSeverityCount :: nat
  mediumSeverityCount :: nat


section \<open>Specification-side definitions and example inputs\<close>

text \<open>The threat-level table of the specification, over the legitimacy flag, the numbers
  of high and medium issues and the number of issues.\<close>

definition spec_threatLevel :: "bool \<Rightarrow> nat \<Rightarrow> nat \<Rightarrow> nat \<Rightarrow> threat_level" where
  "spec_threatLevel legit H M n =
     (if legit then Safe
      else if H \<ge> 2 \<or> (H \<ge> 1 \<and> M \<ge> 1) then Dangerous
      else if H \<ge> 1 \<or> M \<ge> 2 then Suspicious
      else if n > 0 then Suspicious
      else Unknown)"

text \<open>The legitimacy test of the specification: the registrable domain equals an entry of
  the legitimate-domain set, or the host is a subdomain of one.\<close>

definition spec_legitimate :: "string \<Rightarrow> bool" where
  "spec_legitimate host =
     (\<exists>d \<in> set LEGITIMATE_DOMAINS. extractDomain host = d \<or> endsWith host (''.'' @ d))"

text \<open>The call runs the local analysis: the cache has no answer, the URL parses and its
  host is neither whitelisted, blacklisted nor known to the reputation store.\<close>

definition no_shortcut :: "env \<Rightarrow> int \<Rightarrow> store \<Rightarrow> string \<Rightarrow> bool" where
  "no_shortcut e now st u =
     (cached_answer now (fst (getCachedThreat now st u)) = None \<and>
      (case env_URL e u of
         None \<Rightarrow> False
       | Some urlObj \<Rightarrow>
           isWhitelisted st (u_hostname urlObj) = Inr False
           \<and> isBlacklisted st (u_hostname urlObj) = Inr False
           \<and> \<not> found (env_checkPhishTank e u)))"

text \<open>The context argument is absent, falsy or a string: the text \<^verbatim>\<open>analyzeContext\<close>
  reads is a string.\<close>

definition text_context :: "js_value option \<Rightarrow> bool" where
  "text_context context =
     (case context of
        None \<Rightarrow> True
      | Some c \<Rightarrow> (case c of JString s \<Rightarrow> True | _ \<Rightarrow> \<not> truthy c))"

text \<open>Example inputs.  \<open>example_URL\<close> gives the \<^verbatim>\<open>URL\<close> objects of a few strings and
  rejects every other string.\<close>

definition mk_url :: "string \<Rightarrow> string \<Rightarrow> string \<Rightarrow> url_obj" where
  "mk_url pr h pa =
     \<lparr>u_hostname = h, u_protocol = pr, u_username = [], u_port = [], u_pathname = pa,
      u_searchParams = []\<rparr>"

definition example_URL :: url_ctor where
  "example_URL s =
     (if s = ''https://google.com'' then Some (mk_url ''https:'' ''google.com'' ''/'')
      else if s = ''https://gooogle.com'' then Some (mk_url ''https:'' ''gooogle.com'' ''/'')
      else if s = ''http://zoho.com'' then Some (mk_url ''http:'' ''zoho.com'' ''/'')
      else if s = ''https://abc.com'' then Some (mk_url ''https:'' ''abc.com'' ''/'')
      else if s = ''https://abc.com/bitcoin-forex-pharmacy''
        then Some (mk_url ''https:'' ''abc.com'' ''/bitcoin-forex-pharmacy'')
      else None)"

definition example_env :: env where
  "example_env =
     \<lparr>env_URL = example_URL,
      env_checkPhishTank = (\<lambda>u. \<lparr>found = False, pt_verified = False, pt_source = []\<rparr>),
      env_window_protocol = None\<rparr>"

definition empty_store :: store where
  "empty_store =
     \<lparr>threatCache = [], whitelist = [], blacklist = [],
      stats = \<lparr>linksScanned = 0, threatsBlocked = 0, lastScan = None\<rparr>,
      notifications = [], threatLog = [], local_fails = False, sync_fails = False\<rparr>"

section \<open>The final threat level\<close>

text \<open>
  Claim C3, as stated, fails: a legitimate domain is safe whatever its context score.
  Here the analysis of a legitimate domain with context score 10 is safe, not dangerous.
\<close>

theorem C3_counterexample:
  "contextScore ((new_analysis ''https://google.com'' Unknown [])
       \<lparr>r_isLegitimate := Some True, contextScore := Some 10\<rparr>) = Some 10
   \<and> calculateFinalThreatLevel ((new_analysis ''https://google.com'' Unknown [])
       \<lparr>r_isLegitimate := Some True, contextScore := Some 10\<rparr>) = Safe"
  by (simp add: calculateFinalThreatLevel_def new_analysis_def)

text \<open>
  Claim C3, amended: for every analysis input whose context score is at least 9, the
  final threat level is dangerous when the input is not flagged legitimate, whatever the
  number and the severities of its issues, and safe when it is flagged legitimate.
\<close>

theorem C3_context_override:
  assumes "contextScore a = Some c" and "c \<ge> 9"
  shows "(r_isLegitimate a \<noteq> Some True \<longrightarrow> calculateFinalThreatLevel a = Dangerous)
       \<and> (r_isLegitimate a = Some True \<longrightarrow> calculateFinalThreatLevel a = Safe)"
  using assms by (simp add: calculateFinalThreatLevel_def Let_def)

theorem C3_context_override_witness:
  "calculateFinalThreatLevel ((new_analysis ''https://abc.com'' Unknown [])
       \<lparr>r_isLegitimate := Some False, contextScore := Some 10\<rparr>) = Dangerous"
  using C3_context_override
    [of "(new_analysis ''https://abc.com'' Unknown [])
           \<lparr>r_isLegitimate := Some False, contextScore := Some 10\<rparr>" 10]
  by (simp add: new_analysis_def)

section \<open>The threat level of the URL parser\<close>

lemma some_legitimate_Some:
  "some_legitimate xs (Some d) (Some h) = Inr (\<exists>x \<in> set xs. d = x \<or> endsWith h (''.'' @ x))"
  by (induction xs) auto

lemma isLegitimate_parsed:
  assumes "parsed p = Some u"
  shows "isLegitimate p = Inr (spec_legitimate (toLowerCase (u_hostname u)))"
  using assms
  by (simp add: isLegitimate_def this_domain_def this_hostname_def some_legitimate_Some
      spec_legitimate_def)

lemma gooogle_issues:
  "getIssues \<lparr>p_url = ''https://gooogle.com'',
              parsed = Some (mk_url ''https:'' ''gooogle.com'' ''/'')\<rparr>
     = [mk_issue ''homograph'' High ''URL contains lookalike characters'']"
  by code_simp

lemma gooogle_not_legitimate: "\<not> spec_legitimate (toLowerCase ''gooogle.com'')"
  unfolding spec_legitimate_def by code_simp

lemma google_legitimate: "spec_legitimate (toLowerCase ''google.com'')"
  unfolding spec_legitimate_def by code_simp

text \<open>
  Claim C1: for every URL string that parses, \<^verbatim>\<open>URLParser.getThreatLevel\<close> is the
  table of the specification over the parser's own issue list: safe for a legitimate
  domain; otherwise, with H and M the numbers of high and medium issues, dangerous when
  H \<open>\<ge>\<close> 2 or (H \<open>\<ge>\<close> 1 and M \<open>\<ge>\<close> 1), else suspicious when H \<open>\<ge>\<close> 1 or M \<open>\<ge>\<close> 2, else
  suspicious when there is an issue, else unknown.
\<close>

theorem C1_threat_level_table:
  assumes "parsed p = Some u"
  shows "getThreatLevel p =
           Inr (spec_threatLevel (spec_legitimate (toLowerCase (u_hostname u)))
                  (length (filter (\<lambda>i. severity i = High) (getIssues p)))
                  (length (filter (\<lambda>i. severity i = Medium) (getIssues p)))
                  (length (getIssues p)))"
  by (simp add: getThreatLevel_def isLegitimate_parsed [OF assms] spec_threatLevel_def
      count_severity_def Let_def)

theorem C1_threat_level_table_witness:
  "getThreatLevel \<lparr>p_url = ''https://gooogle.com'',
                   parsed = Some (mk_url ''https:'' ''gooogle.com'' ''/'')\<rparr> = Inr Suspicious"
  using C1_threat_level_table
    [of "\<lparr>p_url = ''https://gooogle.com'',
          parsed = Some (mk_url ''https:'' ''gooogle.com'' ''/'')\<rparr>"
        "mk_url ''https:'' ''gooogle.com'' ''/''"]
    gooogle_not_legitimate
  by (simp add: gooogle_issues spec_threatLevel_def mk_issue_def) (simp add: mk_url_def)

section \<open>The heuristic score\<close>

lemma add_if_sum: "add_if c w s = s + (if c then w else 0)"
  by (simp add: add_if_def)

lemma filter_weights:
  "sum_list (map snd (filter fst ((c, w) # xs)))
     = (if c then w else 0) + sum_list (map snd (filter fst xs))"
  by simp

lemma score_is_spec_score: "calculatePhishingScore (Some f) = spec_score f"
  unfolding calculatePhishingScore_def spec_score_def spec_weight_table_def Let_def
    add_if_sum filter_weights
  by (simp split del: if_split add: mult.commute)

lemma extractFeatures_None: "(extractFeatures URL u = None) = (URL u = None)"
  by (simp add: extractFeatures_def split: option.splits)

text \<open>
  Claim C8: for every feature vector the heuristic score is the sum of the listed
  weights whose condition holds, plus 2 for each suspicious keyword, capped at 100, so it
  is an integer between 0 and 100; and feature extraction returns null exactly when the
  URL does not parse.
\<close>

theorem C8_score_is_weight_sum:
  "calculatePhishingScore (Some f) = spec_score f \<and> calculatePhishingScore (Some f) \<le> 100
   \<and> ((extractFeatures URL u = None) = (URL u = None))"
  by (simp add: score_is_spec_score extractFeatures_None) (simp add: spec_score_def)

theorem C8_score_is_weight_sum_witness:
  "calculatePhishingScore (Some \<lparr>urlLength = 18, domainLength = 11, pathLength = 1,
        paramCount = 0, digitCount = 8, specialCharCount = 6, uppercaseCount = 0,
        subdomainCount = 2, hasDash = False, hasUnderscore = False, hasIP = True,
        hasPort = False, hasAtSymbol = False, isHTTPS = False, tld = ''1'',
        isCommonTLD = False, entropy = 2, suspiciousKeywords = 0\<rparr>) = 10
   \<and> extractFeatures example_URL ''not-a-url'' = None"
  using C8_score_is_weight_sum
    [of "\<lparr>urlLength = 18, domainLength = 11, pathLength = 1,
        paramCount = 0, digitCount = 8, specialCharCount = 6, uppercaseCount = 0,
        subdomainCount = 2, hasDash = False, hasUnderscore = False, hasIP = True,
        hasPort = False, hasAtSymbol = False, isHTTPS = False, tld = ''1'',
        isCommonTLD = False, entropy = 2, suspiciousKeywords = 0\<rparr>"
        example_URL "''not-a-url''"]
  by (simp add: spec_score_def spec_weight_table_def example_URL_def)

section \<open>The paths of analyzeLink\<close>

lemma showThreatBlocked_parsed:
  assumes "URL u = Some urlObj"
  shows "showThreatBlocked URL st u lvl n =
           Inr (if lvl = Dangerous \<or> lvl = Suspicious
                then st\<lparr>notifications := notifications st @ [(u, lvl, n)]\<rparr> else st)"
  using assms by (simp add: showThreatBlocked_def)

lemma publish_parsed:
  assumes "env_URL e u = Some urlObj"
  shows "\<exists>st'. publish e now st u a = Inr st'"
  by (simp add: publish_def Let_def showThreatBlocked_parsed [of "env_URL e" u, OF assms])

lemma getThreatLevel_total:
  assumes "parsed p = Some u"
  shows "\<exists>lvl. getThreatLevel p = Inr lvl"
  by (simp add: getThreatLevel_def isLegitimate_parsed [OF assms] Let_def)

lemma analyzeURL_parsed:
  assumes "URL u = Some urlObj"
  shows "\<exists>lvl. analyzeURL URL u =
           Inr ((new_analysis u lvl (getIssues (new_URLParser URL u)))
                  \<lparr>domain := this_domain (new_URLParser URL u),
                   hostname := this_hostname (new_URLParser URL u),
                   r_isLegitimate := Some (spec_legitimate (toLowerCase (u_hostname urlObj)))\<rparr>)"
proof -
  have p: "parsed (new_URLParser URL u) = Some urlObj"
    using assms by (simp add: new_URLParser_def)
  obtain lvl where l: "getThreatLevel (new_URLParser URL u) = Inr lvl"
    using getThreatLevel_total [OF p] by blast
  show ?thesis
    by (rule exI [of _ lvl]) (simp add: analyzeURL_def isLegitimate_parsed [OF p] l Let_def)
qed

lemma add_ml_fields:
  "url (add_ml m a) = url a" "r_isLegitimate (add_ml m a) = r_isLegitimate a"
  "contextScore (add_ml m a) = contextScore a" "timestamp (add_ml m a) = timestamp a"
  by (simp_all add: add_ml_def Let_def split: option.splits)

lemma add_ml_issues:
  "issues (add_ml m a) = issues a @
     (if ml_score m > 0
      then (case ml_patterns m of None \<Rightarrow> [] | Some pats \<Rightarrow> map ml_pattern_issue pats)
           @ (if ml_score m \<ge> 15 then [ml_high_risk_issue m] else [])
      else [])"
  by (simp add: add_ml_def Let_def split: option.splits)

lemma final_level_threatLevel_update:
  "calculateFinalThreatLevel (a\<lparr>threatLevel := x\<rparr>) = calculateFinalThreatLevel a"
  by (simp add: calculateFinalThreatLevel_def Let_def)

lemma context_or_url_None: "context_or_url None u = JString u"
  by (simp add: context_or_url_def)

lemma falsy_context_or_url:
  assumes "ctx = None \<or> (\<exists>c. ctx = Some c \<and> \<not> truthy c)"
  shows "context_or_url ctx u = JString u"
  using assms by (auto simp: context_or_url_def)

lemma text_context_string:
  assumes "text_context ctx"
  shows "\<exists>tx. context_or_url ctx u = JString tx"
  using assms by (auto simp: text_context_def context_or_url_def split: option.splits js_value.splits)

lemma analyzeContext_value_string: "analyzeContext_value (JString s) = Inr (analyzeContext s)"
  by (simp add: analyzeContext_value_def analyzeContext_def)

text \<open>The local analysis of a URL that parses, with a string as context text: it does not
  throw, and these are its fields.\<close>

lemma local_analysis_parsed:
  assumes "env_URL e u = Some urlObj" and "context_or_url ctx u = JString tx"
  shows "\<exists>a. local_analysis e u ctx = Inr a
           \<and> url a = u
           \<and> r_isLegitimate a = Some (spec_legitimate (toLowerCase (u_hostname urlObj)))
           \<and> contextScore a = Some (analyzeContext tx)
           \<and> timestamp a = None
           \<and> threatLevel a = calculateFinalThreatLevel a
           \<and> issues a = getIssues (new_URLParser (env_URL e) u)
               @ (if ml_score (analyze (env_URL e) u) > 0
                  then (case ml_patterns (analyze (env_URL e) u) of
                          None \<Rightarrow> [] | Some pats \<Rightarrow> map ml_pattern_issue pats)
                       @ (if ml_score (analyze (env_URL e) u) \<ge> 15
                          then [ml_high_risk_issue (analyze (env_URL e) u)] else [])
                  else [])
               @ validateURL (env_URL e) (env_window_protocol e) u
               @ (if analyzeContext tx > 0 then [context_issue (analyzeContext tx)] else [])"
proof -
  obtain lvl where a0: "analyzeURL (env_URL e) u =
           Inr ((new_analysis u lvl (getIssues (new_URLParser (env_URL e) u)))
                  \<lparr>domain := this_domain (new_URLParser (env_URL e) u),
                   hostname := this_hostname (new_URLParser (env_URL e) u),
                   r_isLegitimate := Some (spec_legitimate (toLowerCase (u_hostname urlObj)))\<rparr>)"
    using analyzeURL_parsed [of "env_URL e" u, OF assms(1)] by blast
  show ?thesis
    unfolding local_analysis_def a0 assms(2) analyzeContext_value_string
    by (simp add: Let_def add_ml_fields add_ml_issues final_level_threatLevel_update
        new_analysis_def del: append_assoc)
qed


lemma getCachedThreat_lists:
  "getWhitelist (snd (getCachedThreat now st u)) = getWhitelist st"
  "getBlacklist (snd (getCachedThreat now st u)) = getBlacklist st"
  by (simp_all add: getCachedThreat_def getWhitelist_def getBlacklist_def Let_def
      split: option.splits)

lemma isWhitelisted_cong:
  "getWhitelist st = getWhitelist st' \<Longrightarrow> isWhitelisted st dn = isWhitelisted st' dn"
  by (simp add: isWhitelisted_def)

lemma isBlacklisted_cong:
  "getBlacklist st = getBlacklist st' \<Longrightarrow> isBlacklisted st dn = isBlacklisted st' dn"
  by (simp add: isBlacklisted_def)

lemma getBlacklist_removeFromWhitelist:
  "getBlacklist (removeFromWhitelist st dn) = getBlacklist st"
  by (simp add: removeFromWhitelist_def getBlacklist_def)

lemma local_analysis_timestamp:
  assumes "local_analysis e u ctx = Inr a"
  shows "timestamp a = None" and "error a = None"
  using assms
  by (auto simp: local_analysis_def analyzeURL_def Let_def add_ml_def new_analysis_def
      split: sum.splits option.splits if_splits)

lemma unlisted_local:
  assumes "env_URL e u = Some urlObj"
    and "isBlacklisted st dn = Inr False"
    and "\<not> found (env_checkPhishTank e u)"
    and "local_analysis e u ctx = Inr a"
  shows "\<exists>st'. publish e now st u a = Inr st'
             \<and> analyzeLink_unlisted e now st u ctx dn = Inr (a, st')"
proof -
  obtain st' where "publish e now st u a = Inr st'"
    using publish_parsed [OF assms(1)] by blast
  then show ?thesis
    using assms by (simp add: analyzeLink_unlisted_def Let_def)
qed

lemma unlisted_local_error:
  assumes "isBlacklisted st dn = Inr False"
    and "\<not> found (env_checkPhishTank e u)"
    and "local_analysis e u ctx = Inl er"
  shows "analyzeLink_unlisted e now st u ctx dn = Inl (er, st)"
  using assms by (simp add: analyzeLink_unlisted_def Let_def)

text \<open>Without a shortcut, \<^verbatim>\<open>analyzeLink\<close> returns the local analysis, or the error result
  when the local analysis throws.\<close>

lemma analyzeLink_no_shortcut_cases:
  assumes "no_shortcut e now st u"
  shows "fst (analyzeLink e now st u ctx) =
           (case local_analysis e u ctx of
              Inl er \<Rightarrow> (new_analysis u Unknown [mk_issue ''error'' Low ''Analysis failed''])
                          \<lparr>error := Some (error_message er)\<rparr>
            | Inr a \<Rightarrow> a)"
proof -
  obtain cached st1 where g: "getCachedThreat now st u = (cached, st1)"
    by (cases "getCachedThreat now st u")
  from assms(1) g have c: "cached_answer now cached = None"
    by (simp add: no_shortcut_def)
  from assms(1) obtain urlObj where p: "env_URL e u = Some urlObj"
    and w: "isWhitelisted st (u_hostname urlObj) = Inr False"
    and b: "isBlacklisted st (u_hostname urlObj) = Inr False"
    and f: "\<not> found (env_checkPhishTank e u)"
    by (auto simp: no_shortcut_def split: option.splits)
  have st1: "st1 = snd (getCachedThreat now st u)" using g by simp
  have w1: "isWhitelisted st1 (u_hostname urlObj) = Inr False"
    using w isWhitelisted_cong [of st1 st] by (simp add: st1 getCachedThreat_lists)
  have b1: "isBlacklisted st1 (u_hostname urlObj) = Inr False"
    using b isBlacklisted_cong [of st1 st] by (simp add: st1 getCachedThreat_lists)
  show ?thesis
  proof (cases "local_analysis e u ctx")
    case (Inl er)
    show ?thesis
      by (simp add: analyzeLink_def analyzeLink_try_def g c analyzeLink_fresh_def p w1 Inl
          unlisted_local_error [OF b1 f Inl])
  next
    case (Inr a)
    obtain st' where "analyzeLink_unlisted e now st1 u ctx (u_hostname urlObj) = Inr (a, st')"
      using unlisted_local [OF p b1 f Inr] by blast
    then show ?thesis
      by (simp add: analyzeLink_def analyzeLink_try_def g c analyzeLink_fresh_def p w1 Inr)
  qed
qed

lemma analyzeLink_no_shortcut:
  assumes "no_shortcut e now st u" and "local_analysis e u ctx = Inr a"
  shows "fst (analyzeLink e now st u ctx) = a"
  by (simp add: analyzeLink_no_shortcut_cases [OF assms(1)] assms(2))

text \<open>The answer after the cache lookup depends on the store through the whitelist and
  the blacklist only, and on the time through the timestamp only.\<close>

lemma unlisted_result_indep:
  assumes "env_URL e u = Some urlObj" and "getBlacklist st = getBlacklist st'"
  shows "map_sum fst (\<lambda>r. (fst r)\<lparr>timestamp := None\<rparr>) (analyzeLink_unlisted e now st u ctx dn)
       = map_sum fst (\<lambda>r. (fst r)\<lparr>timestamp := None\<rparr>) (analyzeLink_unlisted e now' st' u ctx dn)"
    and "map_sum fst fst (analyzeLink_unlisted e now st u ctx dn)
       = map_sum fst fst (analyzeLink_unlisted e now st' u ctx dn)"
proof -
  have b: "isBlacklisted st dn = isBlacklisted st' dn"
    by (rule isBlacklisted_cong [OF assms(2)])
  have pub: "\<exists>s. publish e n s0 u a = Inr s" for n s0 a
    by (rule publish_parsed [OF assms(1)])
  show "map_sum fst (\<lambda>r. (fst r)\<lparr>timestamp := None\<rparr>) (analyzeLink_unlisted e now st u ctx dn)
       = map_sum fst (\<lambda>r. (fst r)\<lparr>timestamp := None\<rparr>) (analyzeLink_unlisted e now' st' u ctx dn)"
  proof (cases "local_analysis e u ctx")
    case (Inl er)
    show ?thesis
      by (simp add: analyzeLink_unlisted_def Let_def Inl b
          showThreatBlocked_parsed [of "env_URL e" u, OF assms(1)]
          blacklisted_result_def phishTank_result_def split: sum.splits)
  next
    case (Inr a)
    obtain s1 where p1: "publish e now st u a = Inr s1" using pub by blast
    obtain s2 where p2: "publish e now' st' u a = Inr s2" using pub by blast
    show ?thesis
      by (simp add: analyzeLink_unlisted_def Let_def Inr b p1 p2
          showThreatBlocked_parsed [of "env_URL e" u, OF assms(1)]
          blacklisted_result_def phishTank_result_def split: sum.splits)
  qed
  show "map_sum fst fst (analyzeLink_unlisted e now st u ctx dn)
       = map_sum fst fst (analyzeLink_unlisted e now st' u ctx dn)"
  proof (cases "local_analysis e u ctx")
    case (Inl er)
    show ?thesis
      by (simp add: analyzeLink_unlisted_def Let_def Inl b
          showThreatBlocked_parsed [of "env_URL e" u, OF assms(1)] split: sum.splits)
  next
    case (Inr a)
    obtain s1 where p1: "publish e now st u a = Inr s1" using pub by blast
    obtain s3 where p3: "publish e now st' u a = Inr s3" using pub by blast
    show ?thesis
      by (simp add: analyzeLink_unlisted_def Let_def Inr b p1 p3
          showThreatBlocked_parsed [of "env_URL e" u, OF assms(1)] split: sum.splits)
  qed
qed

lemma fresh_result_indep:
  assumes "getWhitelist st = getWhitelist st'" and "getBlacklist st = getBlacklist st'"
  shows "map_sum fst (\<lambda>r. (fst r)\<lparr>timestamp := None\<rparr>) (analyzeLink_fresh e now st u ctx)
       = map_sum fst (\<lambda>r. (fst r)\<lparr>timestamp := None\<rparr>) (analyzeLink_fresh e now' st' u ctx)"
    and "map_sum fst fst (analyzeLink_fresh e now st u ctx)
       = map_sum fst fst (analyzeLink_fresh e now st' u ctx)"
proof -
  have w: "isWhitelisted st dn = isWhitelisted st' dn" for dn
    by (rule isWhitelisted_cong [OF assms(1)])
  have br: "getBlacklist (removeFromWhitelist st dn) = getBlacklist (removeFromWhitelist st' dn)"
    for dn by (simp add: getBlacklist_removeFromWhitelist assms(2))
  show "map_sum fst (\<lambda>r. (fst r)\<lparr>timestamp := None\<rparr>) (analyzeLink_fresh e now st u ctx)
       = map_sum fst (\<lambda>r. (fst r)\<lparr>timestamp := None\<rparr>) (analyzeLink_fresh e now' st' u ctx)"
  proof (cases "env_URL e u")
    case None
    then show ?thesis by (simp add: analyzeLink_fresh_def)
  next
    case (Some urlObj)
    show ?thesis
      by (simp add: analyzeLink_fresh_def Let_def Some w whitelisted_result_def
          unlisted_result_indep(1) [OF Some assms(2), where now'=now']
          unlisted_result_indep(1) [OF Some br, where now'=now'] split: sum.splits)
  qed
  show "map_sum fst fst (analyzeLink_fresh e now st u ctx)
       = map_sum fst fst (analyzeLink_fresh e now st' u ctx)"
  proof (cases "env_URL e u")
    case None
    then show ?thesis by (simp add: analyzeLink_fresh_def)
  next
    case (Some urlObj)
    show ?thesis
      by (simp add: analyzeLink_fresh_def Let_def Some w
          unlisted_result_indep(2) [OF Some assms(2)]
          unlisted_result_indep(2) [OF Some br] split: sum.splits)
  qed
qed

text \<open>A result built after the cache lookup carries no error message, and either no
  timestamp or the current time.\<close>

lemma unlisted_result_fields:
  assumes "analyzeLink_unlisted e now st u ctx dn = Inr (a, st')"
  shows "(timestamp a = None \<or> timestamp a = Some now) \<and> error a = None"
  using assms local_analysis_timestamp [of e u ctx]
  by (auto simp: analyzeLink_unlisted_def Let_def blacklisted_result_def phishTank_result_def
      new_analysis_def split: sum.splits if_splits)

lemma fresh_result_fields:
  assumes "analyzeLink_fresh e now st u ctx = Inr (a, st')"
  shows "(timestamp a = None \<or> timestamp a = Some now) \<and> error a = None"
  using assms unlisted_result_fields [of e now _ u ctx _ a st']
  by (auto simp: analyzeLink_fresh_def Let_def whitelisted_result_def new_analysis_def
      split: option.splits sum.splits if_splits)



text \<open>With nothing in the cache, the whitelist and the blacklist and no reputation match,
  a URL that parses takes no shortcut.\<close>

lemma empty_stores_no_shortcut:
  assumes "threatCache st = []" and "whitelist st = []" and "blacklist st = []"
    and "\<not> found (env_checkPhishTank e u)" and "env_URL e u = Some urlObj"
  shows "no_shortcut e now st u"
  using assms
  by (simp add: no_shortcut_def getCachedThreat_def cached_answer_def isWhitelisted_def
      isBlacklisted_def getWhitelist_def getBlacklist_def)

lemma legitimate_is_safe:
  assumes "no_shortcut e now st u" and "env_URL e u = Some urlObj"
    and "spec_legitimate (toLowerCase (u_hostname urlObj))"
    and "context_or_url ctx u = JString tx"
  shows "threatLevel (fst (analyzeLink e now st u ctx)) = Safe"
proof -
  obtain a where la: "local_analysis e u ctx = Inr a"
    and leg: "r_isLegitimate a = Some (spec_legitimate (toLowerCase (u_hostname urlObj)))"
    and lvl: "threatLevel a = calculateFinalThreatLevel a"
    using local_analysis_parsed [OF assms(2) assms(4)] by blast
  have "calculateFinalThreatLevel a = Safe"
    using leg assms(3) by (simp add: calculateFinalThreatLevel_def)
  then show ?thesis
    using analyzeLink_no_shortcut [OF assms(1) la] lvl by simp
qed

section \<open>Legitimate domains\<close>

lemma zoho_issues:
  "getIssues \<lparr>p_url = ''http://zoho.com'', parsed = Some (mk_url ''http:'' ''zoho.com'' ''/'')\<rparr>
     = [mk_issue ''insecure'' Medium ''URL uses insecure HTTP protocol'']"
  by code_simp

lemma zoho_legitimate: "spec_legitimate (toLowerCase ''zoho.com'')"
  unfolding spec_legitimate_def by code_simp

text \<open>The URL parser reports two issues for \<^verbatim>\<open>https://google.com\<close> itself: its host
  contains the letter l, which the lookalike table lists, and is one edit away from
  google.co.\<close>

lemma google_issues:
  "map itype (getIssues \<lparr>p_url = ''https://google.com'',
                         parsed = Some (mk_url ''https:'' ''google.com'' ''/'')\<rparr>)
     = [''homograph'', ''typosquatting'']"
  by code_simp

text \<open>
  Claim C2, as stated, fails: the issue list of a legitimate domain is not emptied.  With
  empty stores, \<^verbatim>\<open>http://zoho.com\<close> (a configured legitimate domain) is safe and its
  issue list holds the insecure-protocol issue of the URL parser.  And the verdict is
  safe only when the context text can be read: with the number 5 as context the same call
  ends in the catch and returns the unknown verdict.
\<close>

theorem C2_counterexample:
  "spec_legitimate (toLowerCase ''zoho.com'')
   \<and> threatLevel (fst (analyzeLink example_env 0 empty_store ''http://zoho.com'' None)) = Safe
   \<and> mk_issue ''insecure'' Medium ''URL uses insecure HTTP protocol''
        \<in> set (issues (fst (analyzeLink example_env 0 empty_store ''http://zoho.com'' None)))
   \<and> threatLevel (fst (analyzeLink example_env 0 empty_store ''http://zoho.com''
                        (Some (JNumber ''5'')))) = Unknown"
proof -
  have p: "env_URL example_env ''http://zoho.com'' = Some (mk_url ''http:'' ''zoho.com'' ''/'')"
    by (simp add: example_env_def example_URL_def)
  have h: "u_hostname (mk_url ''http:'' ''zoho.com'' ''/'') = ''zoho.com''"
    by (simp add: mk_url_def)
  have n: "no_shortcut example_env 0 empty_store ''http://zoho.com''"
    by (rule empty_stores_no_shortcut [OF _ _ _ _ p])
      (simp_all add: empty_store_def example_env_def)
  obtain a where la: "local_analysis example_env ''http://zoho.com'' None = Inr a"
    and pre: "prefix (getIssues (new_URLParser (env_URL example_env) ''http://zoho.com''))
               (issues a)"
    using local_analysis_parsed [OF p context_or_url_None] by (auto simp: prefix_def)
  have r: "fst (analyzeLink example_env 0 empty_store ''http://zoho.com'' None) = a"
    by (rule analyzeLink_no_shortcut [OF n la])
  have "new_URLParser (env_URL example_env) ''http://zoho.com''
          = \<lparr>p_url = ''http://zoho.com'', parsed = Some (mk_url ''http:'' ''zoho.com'' ''/'')\<rparr>"
    by (simp add: new_URLParser_def p)
  then have "mk_issue ''insecure'' Medium ''URL uses insecure HTTP protocol'' \<in> set (issues a)"
    using pre by (auto simp: zoho_issues prefix_def)
  moreover have "threatLevel (fst (analyzeLink example_env 0 empty_store ''http://zoho.com'' None))
                   = Safe"
    using legitimate_is_safe [OF n p _ context_or_url_None] zoho_legitimate by (simp add: h)
  moreover have "threatLevel (fst (analyzeLink example_env 0 empty_store ''http://zoho.com''
                                     (Some (JNumber ''5'')))) = Unknown"
  proof -
    obtain a0 where a0: "analyzeURL (env_URL example_env) ''http://zoho.com'' = Inr a0"
      using analyzeURL_parsed [of "env_URL example_env" "''http://zoho.com''", OF p] by blast
    have "local_analysis example_env ''http://zoho.com'' (Some (JNumber ''5''))
            = Inl (TypeError ''text.toLowerCase is not a function'')"
      by (simp add: local_analysis_def a0 Let_def context_or_url_def analyzeContext_value_def)
    then show ?thesis
      by (simp add: analyzeLink_no_shortcut_cases [OF n] new_analysis_def)
  qed
  ultimately show ?thesis using zoho_legitimate r by simp
qed

text \<open>
  Claim C2, amended: for every URL that parses and whose host's registrable domain
  equals, or whose host is a subdomain of, an entry of the legitimate-domain set, with
  empty cache, whitelist, blacklist and reputation stores, \<^verbatim>\<open>analyzeLink\<close> (called
  without context, or with a string or a falsy value as context) returns the threat level
  safe, whatever detectors fired; the issue list is not emptied: it begins with the issues
  of the URL parser.
\<close>

theorem C2_legitimate_safe:
  assumes "threatCache st = []" and "whitelist st = []" and "blacklist st = []"
    and "\<not> found (env_checkPhishTank e u)"
    and "env_URL e u = Some urlObj"
    and "spec_legitimate (toLowerCase (u_hostname urlObj))"
    and "text_context ctx"
  shows "threatLevel (fst (analyzeLink e now st u ctx)) = Safe
       \<and> prefix (getIssues (new_URLParser (env_URL e) u)) (issues (fst (analyzeLink e now st u ctx)))"
proof -
  note n = empty_stores_no_shortcut [OF assms(1) assms(2) assms(3) assms(4) assms(5)]
  obtain tx where t: "context_or_url ctx u = JString tx"
    using text_context_string [OF assms(7)] by blast
  obtain a where la: "local_analysis e u ctx = Inr a"
    and pre: "prefix (getIssues (new_URLParser (env_URL e) u)) (issues a)"
    using local_analysis_parsed [OF assms(5) t] by (auto simp: prefix_def)
  have r: "fst (analyzeLink e now st u ctx) = a"
    by (rule analyzeLink_no_shortcut [OF n la])
  have s: "threatLevel (fst (analyzeLink e now st u ctx)) = Safe"
    by (rule legitimate_is_safe [OF n assms(5) assms(6) t])
  show ?thesis
    using s pre by (simp add: r)
qed

theorem C2_legitimate_safe_witness:
  "threatLevel (fst (analyzeLink example_env 0 empty_store ''https://google.com'' None)) = Safe"
proof -
  have p: "env_URL example_env ''https://google.com''
             = Some (mk_url ''https:'' ''google.com'' ''/'')"
    by (simp add: example_env_def example_URL_def)
  have l: "spec_legitimate (toLowerCase (u_hostname (mk_url ''https:'' ''google.com'' ''/'')))"
    using google_legitimate by (simp add: mk_url_def)
  show ?thesis
    by (rule C2_legitimate_safe [OF _ _ _ _ p l, THEN conjunct1])
      (simp_all add: empty_store_def example_env_def text_context_def)
qed

section \<open>Malformed URLs and errors\<close>

lemma parse_failure_result:
  assumes "env_URL e u = None"
    and "cached_answer now (fst (getCachedThreat now st u)) = None"
  shows "analyzeLink_try e now st u ctx
           = Inl (TypeError ''Invalid URL'', snd (getCachedThreat now st u))"
    and "fst (analyzeLink e now st u ctx)
           = (new_analysis u Unknown [mk_issue ''error'' Low ''Analysis failed''])
               \<lparr>error := Some ''Invalid URL''\<rparr>"
proof -
  show t: "analyzeLink_try e now st u ctx
           = Inl (TypeError ''Invalid URL'', snd (getCachedThreat now st u))"
    using assms
    by (cases "getCachedThreat now st u")
      (simp add: analyzeLink_try_def analyzeLink_fresh_def)
  show "fst (analyzeLink e now st u ctx)
           = (new_analysis u Unknown [mk_issue ''error'' Low ''Analysis failed''])
               \<lparr>error := Some ''Invalid URL''\<rparr>"
    by (simp add: analyzeLink_def t error_message_def)
qed

text \<open>
  Claim C5, as stated, fails: for a malformed URL \<^verbatim>\<open>analyzeLink\<close> answers with the issue
  of type error and low severity, not with an issue of type invalid_url and high severity.
\<close>

theorem C5_counterexample:
  "env_URL example_env ''not-a-url'' = None
   \<and> map (\<lambda>i. (itype i, severity i))
        (issues (fst (analyzeLink example_env 0 empty_store ''not-a-url'' None)))
       = [(''error'', Low)]"
proof -
  have p: "env_URL example_env ''not-a-url'' = None"
    by (simp add: example_env_def example_URL_def)
  have c: "cached_answer 0 (fst (getCachedThreat 0 empty_store ''not-a-url'')) = None"
    by (simp add: getCachedThreat_def empty_store_def cached_answer_def)
  show ?thesis
    by (simp add: p parse_failure_result(2) [OF p c] new_analysis_def mk_issue_def)
qed

text \<open>
  Claim C5, amended: for every malformed URL string (one the URL parser rejects) for
  which the cache has no answer, the URL parser's issue list is exactly one issue of type
  invalid_url with high severity, and \<^verbatim>\<open>analyzeLink\<close> returns the unknown verdict with
  exactly one issue, of type error with low severity; the error thrown by the parse is
  caught and no exception escapes.
\<close>

theorem C5_malformed_url:
  assumes "env_URL e u = None"
    and "cached_answer now (fst (getCachedThreat now st u)) = None"
  shows "getIssues (new_URLParser (env_URL e) u)
           = [mk_issue ''invalid_url'' High ''Invalid URL format'']
       \<and> analyzeLink_try e now st u ctx
           = Inl (TypeError ''Invalid URL'', snd (getCachedThreat now st u))
       \<and> threatLevel (fst (analyzeLink e now st u ctx)) = Unknown
       \<and> issues (fst (analyzeLink e now st u ctx)) = [mk_issue ''error'' Low ''Analysis failed'']"
  using assms(1)
  by (simp add: parse_failure_result [OF assms] getIssues_def new_URLParser_def new_analysis_def)

theorem C5_malformed_url_witness:
  "getIssues (new_URLParser (env_URL example_env) ''not-a-url'')
           = [mk_issue ''invalid_url'' High ''Invalid URL format'']
   \<and> threatLevel (fst (analyzeLink example_env 0 empty_store ''not-a-url'' None)) = Unknown
   \<and> issues (fst (analyzeLink example_env 0 empty_store ''not-a-url'' None))
        = [mk_issue ''error'' Low ''Analysis failed'']"
proof -
  have p: "env_URL example_env ''not-a-url'' = None"
    by (simp add: example_env_def example_URL_def)
  have c: "cached_answer 0 (fst (getCachedThreat 0 empty_store ''not-a-url'')) = None"
    by (simp add: getCachedThreat_def empty_store_def cached_answer_def)
  show ?thesis
    using C5_malformed_url [OF p c, of None] by simp
qed

lemma analyzeLink_fst:
  "fst (analyzeLink e now st u ctx) =
     (case map_sum fst fst (analyzeLink_try e now st u ctx) of
        Inl er \<Rightarrow> (new_analysis u Unknown [mk_issue ''error'' Low ''Analysis failed''])
                    \<lparr>error := Some (error_message er)\<rparr>
      | Inr a \<Rightarrow> a)"
  by (simp add: analyzeLink_def split: sum.splits prod.splits)

lemma analyzeLink_fst_erased:
  "(fst (analyzeLink e now st u ctx))\<lparr>timestamp := None\<rparr> =
     (case map_sum fst (\<lambda>r. (fst r)\<lparr>timestamp := None\<rparr>) (analyzeLink_try e now st u ctx) of
        Inl er \<Rightarrow> (new_analysis u Unknown [mk_issue ''error'' Low ''Analysis failed''])
                    \<lparr>error := Some (error_message er)\<rparr>
      | Inr a \<Rightarrow> a)"
  by (simp add: analyzeLink_def new_analysis_def split: sum.splits prod.splits)

lemma try_cache_miss:
  assumes "cached_answer now (fst (getCachedThreat now st u)) = None"
  shows "analyzeLink_try e now st u ctx
           = analyzeLink_fresh e now (snd (getCachedThreat now st u)) u ctx"
  using assms by (cases "getCachedThreat now st u") (simp add: analyzeLink_try_def)


text \<open>An entry of the whitelist or of the blacklist that throws reaches the catch.\<close>

lemma list_error_result:
  assumes "cached_answer now (fst (getCachedThreat now st u)) = None"
    and "env_URL e u = Some urlObj"
    and "isWhitelisted st (u_hostname urlObj) = Inl er
         \<or> isWhitelisted st (u_hostname urlObj) = Inr False
            \<and> isBlacklisted st (u_hostname urlObj) = Inl er"
  shows "analyzeLink e now st u ctx
           = ((new_analysis u Unknown [mk_issue ''error'' Low ''Analysis failed''])
                \<lparr>error := Some (error_message er)\<rparr>, snd (getCachedThreat now st u))"
proof -
  let ?st1 = "snd (getCachedThreat now st u)"
  have w: "isWhitelisted ?st1 dn = isWhitelisted st dn" for dn
    by (rule isWhitelisted_cong) (rule getCachedThreat_lists)
  have b: "isBlacklisted ?st1 dn = isBlacklisted st dn" for dn
    by (rule isBlacklisted_cong) (rule getCachedThreat_lists)
  have "analyzeLink_fresh e now ?st1 u ctx = Inl (er, ?st1)"
    using assms(3)
    by (auto simp: analyzeLink_fresh_def assms(2) w analyzeLink_unlisted_def b)
  then show ?thesis
    by (simp add: analyzeLink_def try_cache_miss [OF assms(1)])
qed






section \<open>The cache\<close>

lemma map_of_filter_key: "map_of (filter (\<lambda>(k, v). k \<noteq> u) kvs) u = None"
  by (induction kvs) auto

lemma analyzeLink_timestamp:
  assumes "cached_answer now (fst (getCachedThreat now st u)) = None"
  shows "timestamp (fst (analyzeLink e now st u ctx)) = None
       \<or> timestamp (fst (analyzeLink e now st u ctx)) = Some now"
proof (cases "analyzeLink_fresh e now (snd (getCachedThreat now st u)) u ctx")
  case (Inl x)
  then show ?thesis
    by (cases x) (simp add: analyzeLink_def try_cache_miss [OF assms] new_analysis_def)
next
  case (Inr r)
  then show ?thesis
    using fresh_result_fields [of e now _ u ctx "fst r" "snd r"]
    by (simp add: analyzeLink_def try_cache_miss [OF assms])
qed

text \<open>\<^verbatim>\<open>cacheThreat\<close> on a readable cache that stays within its 1000 entries: the entry
  of the URL is the result, stamped with the current time.\<close>

lemma map_of_assoc_set: "map_of (assoc_set k v kvs) k = Some v"
  by (induction kvs) auto

lemma length_assoc_set:
  "length (assoc_set k v kvs) = (if k \<in> fst ` set kvs then length kvs else Suc (length kvs))"
  by (induction kvs) force+

lemma cacheThreat_entry:
  assumes "\<not> local_fails st"
    and "length (threatCache st) < 1000
         \<or> map_of (threatCache st) u \<noteq> None \<and> length (threatCache st) \<le> 1000"
  shows "map_of (threatCache (cacheThreat now st u a)) u = Some (a\<lparr>timestamp := Some now\<rparr>)"
proof -
  have "length (assoc_set u (a\<lparr>timestamp := Some now\<rparr>) (threatCache st)) \<le> 1000"
    using assms(2) by (auto simp: length_assoc_set map_of_eq_None_iff)
  then show ?thesis
    using assms(1) by (simp add: cacheThreat_def Let_def map_of_assoc_set)
qed

lemma threatCache_steps:
  "threatCache (incrementScanned now st) = threatCache st"
  "threatCache (incrementBlocked st) = threatCache st"
  "threatCache (recordThreat st lvl ts) = threatCache st"
  "threatCache (removeFromWhitelist st d) = threatCache st"
  "local_fails (removeFromWhitelist st d) = local_fails st"
  by (simp_all add: incrementScanned_def incrementBlocked_def updateStats_def recordThreat_def
      removeFromWhitelist_def Let_def)

lemma publish_cache:
  assumes "publish e now st u a = Inr s"
  shows "threatCache s = threatCache (cacheThreat now st u a)"
  using assms
  by (auto simp: publish_def Let_def showThreatBlocked_def threatCache_steps
      split: if_splits sum.splits option.splits)

lemma unlisted_cache_entry:
  assumes "analyzeLink_unlisted e now st u ctx dn = Inr (a, st')"
    and "\<not> local_fails st"
    and "length (threatCache st) < 1000
         \<or> map_of (threatCache st) u \<noteq> None \<and> length (threatCache st) \<le> 1000"
  shows "map_of (threatCache st') u = Some (a\<lparr>timestamp := Some now\<rparr>)"
  using assms(1) cacheThreat_entry [OF assms(2) assms(3), of now] publish_cache [of e now st u]
  by (auto simp: analyzeLink_unlisted_def Let_def threatCache_steps showThreatBlocked_def
      split: sum.splits if_splits option.splits)

lemma fresh_cache_entry:
  assumes "analyzeLink_fresh e now st u ctx = Inr (a, st')"
    and "\<not> local_fails st"
    and "length (threatCache st) < 1000
         \<or> map_of (threatCache st) u \<noteq> None \<and> length (threatCache st) \<le> 1000"
  shows "map_of (threatCache st') u = Some (a\<lparr>timestamp := Some now\<rparr>)"
proof -
  have un: "analyzeLink_unlisted e now (removeFromWhitelist st d) u ctx dn = Inr (a, st')
              \<Longrightarrow> map_of (threatCache st') u = Some (a\<lparr>timestamp := Some now\<rparr>)" for d dn
    using unlisted_cache_entry [of e now "removeFromWhitelist st d" u ctx dn a st'] assms(2,3)
    by (simp add: threatCache_steps)
  show ?thesis
    using assms(1) cacheThreat_entry [OF assms(2) assms(3), of now] un
      unlisted_cache_entry [OF _ assms(2) assms(3), of e now ctx _ a st']
    by (auto simp: analyzeLink_fresh_def Let_def split: option.splits sum.splits if_splits)
qed

text \<open>The paths \<^verbatim>\<open>analyzeLink\<close> takes after the cache lookup for a URL that parses.\<close>

lemma unlisted_paths:
  assumes "env_URL e u = Some urlObj"
  shows "isBlacklisted st dn = Inr True \<Longrightarrow>
           map_sum fst fst (analyzeLink_unlisted e now st u ctx dn)
             = Inr (blacklisted_result now u dn)"
    and "isBlacklisted st dn = Inr False \<Longrightarrow> found (env_checkPhishTank e u) \<Longrightarrow>
           map_sum fst fst (analyzeLink_unlisted e now st u ctx dn)
             = Inr (phishTank_result now u dn (env_checkPhishTank e u))"
    and "isBlacklisted st dn = Inr False \<Longrightarrow> \<not> found (env_checkPhishTank e u) \<Longrightarrow>
           map_sum fst fst (analyzeLink_unlisted e now st u ctx dn) = local_analysis e u ctx"
proof -
  show "isBlacklisted st dn = Inr True \<Longrightarrow>
           map_sum fst fst (analyzeLink_unlisted e now st u ctx dn)
             = Inr (blacklisted_result now u dn)"
    by (simp add: analyzeLink_unlisted_def Let_def)
  show "isBlacklisted st dn = Inr False \<Longrightarrow> found (env_checkPhishTank e u) \<Longrightarrow>
           map_sum fst fst (analyzeLink_unlisted e now st u ctx dn)
             = Inr (phishTank_result now u dn (env_checkPhishTank e u))"
    by (simp add: analyzeLink_unlisted_def Let_def
        showThreatBlocked_parsed [of "env_URL e" u, OF assms])
  show "isBlacklisted st dn = Inr False \<Longrightarrow> \<not> found (env_checkPhishTank e u) \<Longrightarrow>
           map_sum fst fst (analyzeLink_unlisted e now st u ctx dn) = local_analysis e u ctx"
  proof (cases "local_analysis e u ctx")
    case (Inl er)
    assume "isBlacklisted st dn = Inr False" "\<not> found (env_checkPhishTank e u)"
    then show ?thesis by (simp add: unlisted_local_error [OF _ _ Inl] Inl)
  next
    case (Inr a)
    assume "isBlacklisted st dn = Inr False" "\<not> found (env_checkPhishTank e u)"
    then obtain s where "analyzeLink_unlisted e now st u ctx dn = Inr (a, s)"
      using unlisted_local [OF assms _ _ Inr] by blast
    then show ?thesis by (simp add: Inr)
  qed
qed

lemma fresh_paths:
  assumes "env_URL e u = Some urlObj"
  shows "isWhitelisted st (u_hostname urlObj) = Inr True
           \<and> verifyWhitelistedDomain (env_URL e) (u_hostname urlObj) \<Longrightarrow>
         map_sum fst fst (analyzeLink_fresh e now st u ctx)
           = Inr (whitelisted_result now u (u_hostname urlObj))"
    and "isWhitelisted st (u_hostname urlObj) = Inr False
           \<or> isWhitelisted st (u_hostname urlObj) = Inr True
             \<and> \<not> verifyWhitelistedDomain (env_URL e) (u_hostname urlObj) \<Longrightarrow>
         \<exists>s. isBlacklisted s (u_hostname urlObj) = isBlacklisted st (u_hostname urlObj)
           \<and> map_sum fst fst (analyzeLink_fresh e now st u ctx)
               = map_sum fst fst (analyzeLink_unlisted e now s u ctx (u_hostname urlObj))"
proof -
  show "isWhitelisted st (u_hostname urlObj) = Inr True
           \<and> verifyWhitelistedDomain (env_URL e) (u_hostname urlObj) \<Longrightarrow>
         map_sum fst fst (analyzeLink_fresh e now st u ctx)
           = Inr (whitelisted_result now u (u_hostname urlObj))"
    by (simp add: analyzeLink_fresh_def assms Let_def)
  have b: "isBlacklisted (removeFromWhitelist st d) dn = isBlacklisted st dn" for d dn
    by (rule isBlacklisted_cong) (rule getBlacklist_removeFromWhitelist)
  show "isWhitelisted st (u_hostname urlObj) = Inr False
           \<or> isWhitelisted st (u_hostname urlObj) = Inr True
             \<and> \<not> verifyWhitelistedDomain (env_URL e) (u_hostname urlObj) \<Longrightarrow>
         \<exists>s. isBlacklisted s (u_hostname urlObj) = isBlacklisted st (u_hostname urlObj)
           \<and> map_sum fst fst (analyzeLink_fresh e now st u ctx)
               = map_sum fst fst (analyzeLink_unlisted e now s u ctx (u_hostname urlObj))"
  proof (elim disjE conjE)
    assume "isWhitelisted st (u_hostname urlObj) = Inr False"
    then show ?thesis
      by (intro exI [of _ st]) (simp add: analyzeLink_fresh_def assms Let_def)
  next
    assume "isWhitelisted st (u_hostname urlObj) = Inr True"
      and "\<not> verifyWhitelistedDomain (env_URL e) (u_hostname urlObj)"
    then show ?thesis
      by (intro exI [of _ "removeFromWhitelist st (u_hostname urlObj)"])
        (simp add: analyzeLink_fresh_def assms Let_def b)
  qed
qed

text \<open>
  Claim C7: for a cached result with threat level dangerous, read back from the store, at
  the next lookup of the same URL.  If its age exceeds one hour, \<^verbatim>\<open>analyzeLink\<close> does not
  return it and performs a fresh full analysis: the result is the one it returns without
  that cache entry; for a URL that parses it is the result of the whitelist, of the
  blacklist or of the reputation store when one of them knows the host, and otherwise the
  local analysis of the URL (the issues of the URL parser, of the pattern scorer, of the
  protocol checks and of the context, the context score and the final threat level
  computed from them); and the new result, stamped with the current time, replaces the
  entry of the URL in the cache.  If its age is under one hour, \<^verbatim>\<open>analyzeLink\<close> returns
  it verbatim and changes nothing in the store.  The cached result carries the time it
  was stored (a non-zero \<^verbatim>\<open>Date.now()\<close>), the cache its at most 1000 entries.
\<close>

theorem C7_dangerous_cache_age:
  assumes "\<not> local_fails st" and "map_of (threatCache st) u = Some c"
    and "threatLevel c = Dangerous" and "timestamp c = Some t" and "t \<noteq> 0"
  shows "(now - t > 3600000 \<longrightarrow>
            fst (analyzeLink e now st u ctx) \<noteq> c
            \<and> fst (analyzeLink e now st u ctx)
                = fst (analyzeLink e now
                         (st\<lparr>threatCache := filter (\<lambda>(k, v). k \<noteq> u) (threatCache st)\<rparr>) u ctx)
            \<and> (\<forall>urlObj. env_URL e u = Some urlObj \<longrightarrow>
                 (isWhitelisted st (u_hostname urlObj) = Inr True
                    \<and> verifyWhitelistedDomain (env_URL e) (u_hostname urlObj) \<longrightarrow>
                  fst (analyzeLink e now st u ctx) = whitelisted_result now u (u_hostname urlObj))
                 \<and> (isWhitelisted st (u_hostname urlObj) = Inr False
                      \<or> isWhitelisted st (u_hostname urlObj) = Inr True
                        \<and> \<not> verifyWhitelistedDomain (env_URL e) (u_hostname urlObj) \<longrightarrow>
                    (isBlacklisted st (u_hostname urlObj) = Inr True \<longrightarrow>
                       fst (analyzeLink e now st u ctx)
                         = blacklisted_result now u (u_hostname urlObj))
                    \<and> (isBlacklisted st (u_hostname urlObj) = Inr False
                         \<and> found (env_checkPhishTank e u) \<longrightarrow>
                       fst (analyzeLink e now st u ctx)
                         = phishTank_result now u (u_hostname urlObj) (env_checkPhishTank e u))
                    \<and> (isBlacklisted st (u_hostname urlObj) = Inr False
                         \<and> \<not> found (env_checkPhishTank e u) \<longrightarrow>
                       (\<forall>tx. context_or_url ctx u = JString tx \<longrightarrow>
                          local_analysis e u ctx = Inr (fst (analyzeLink e now st u ctx))
                          \<and> r_isLegitimate (fst (analyzeLink e now st u ctx))
                              = Some (spec_legitimate (toLowerCase (u_hostname urlObj)))
                          \<and> contextScore (fst (analyzeLink e now st u ctx))
                              = Some (analyzeContext tx)
                          \<and> threatLevel (fst (analyzeLink e now st u ctx))
                              = calculateFinalThreatLevel (fst (analyzeLink e now st u ctx))
                          \<and> issues (fst (analyzeLink e now st u ctx))
                              = getIssues (new_URLParser (env_URL e) u)
                                @ (if ml_score (analyze (env_URL e) u) > 0
                                   then (case ml_patterns (analyze (env_URL e) u) of
                                           None \<Rightarrow> [] | Some pats \<Rightarrow> map ml_pattern_issue pats)
                                        @ (if ml_score (analyze (env_URL e) u) \<ge> 15
                                           then [ml_high_risk_issue (analyze (env_URL e) u)]
                                           else [])
                                   else [])
                                @ validateURL (env_URL e) (env_window_protocol e) u
                                @ (if analyzeContext tx > 0
                                   then [context_issue (analyzeContext tx)] else [])))))
            \<and> (error (fst (analyzeLink e now st u ctx)) = None
                 \<and> length (threatCache st) \<le> 1000 \<longrightarrow>
               map_of (threatCache (snd (analyzeLink e now st u ctx))) u
                 = Some ((fst (analyzeLink e now st u ctx))\<lparr>timestamp := Some now\<rparr>)))
       \<and> (now - t < 3600000 \<longrightarrow> analyzeLink e now st u ctx = (c, st))"
proof (rule conjI; rule impI)
  let ?st' = "st\<lparr>threatCache := filter (\<lambda>(k, v). k \<noteq> u) (threatCache st)\<rparr>"
  let ?st1 = "snd (getCachedThreat now st u)"
  let ?r = "fst (analyzeLink e now st u ctx)"
  assume old: "now - t > 3600000"
  have inv: "cached_answer now (Some c) = None"
    using assms old by (simp add: cached_answer_def isCacheValid_def)
  have g: "getCachedThreat now st u = (Some c, st) \<or> getCachedThreat now st u = (None, ?st')"
    using assms by (simp add: getCachedThreat_def Let_def)
  then have miss: "cached_answer now (fst (getCachedThreat now st u)) = None"
    using inv by (auto simp: cached_answer_def)
  have g': "getCachedThreat now ?st' u = (None, ?st')"
    using assms(1) by (simp add: getCachedThreat_def map_of_filter_key)
  have miss': "cached_answer now (fst (getCachedThreat now ?st' u)) = None"
    by (simp add: g' cached_answer_def)
  have w: "isWhitelisted ?st1 dn = isWhitelisted st dn" for dn
    by (rule isWhitelisted_cong) (rule getCachedThreat_lists)
  have b: "isBlacklisted ?st1 dn = isBlacklisted st dn" for dn
    by (rule isBlacklisted_cong) (rule getCachedThreat_lists)
  have rr: "?r = (case map_sum fst fst (analyzeLink_fresh e now ?st1 u ctx) of
                    Inl er \<Rightarrow> (new_analysis u Unknown [mk_issue ''error'' Low ''Analysis failed''])
                                \<lparr>error := Some (error_message er)\<rparr>
                  | Inr a \<Rightarrow> a)"
    by (simp add: analyzeLink_fst try_cache_miss [OF miss])
  have "map_sum fst fst (analyzeLink_fresh e now ?st1 u ctx)
          = map_sum fst fst (analyzeLink_fresh e now ?st' u ctx)"
    by (rule fresh_result_indep(2))
      (simp_all add: getCachedThreat_lists, simp_all add: getWhitelist_def getBlacklist_def)
  then have s2: "?r = fst (analyzeLink e now ?st' u ctx)"
    by (simp add: analyzeLink_fst try_cache_miss [OF miss] try_cache_miss [OF miss'] g')
  have "timestamp ?r \<noteq> Some t"
    using analyzeLink_timestamp [OF miss, of e ctx] old by auto
  then have s1: "?r \<noteq> c"
    using assms(4) by auto
  have s3: "\<forall>urlObj. env_URL e u = Some urlObj \<longrightarrow>
       (isWhitelisted st (u_hostname urlObj) = Inr True
          \<and> verifyWhitelistedDomain (env_URL e) (u_hostname urlObj) \<longrightarrow>
        ?r = whitelisted_result now u (u_hostname urlObj))
       \<and> (isWhitelisted st (u_hostname urlObj) = Inr False
            \<or> isWhitelisted st (u_hostname urlObj) = Inr True
              \<and> \<not> verifyWhitelistedDomain (env_URL e) (u_hostname urlObj) \<longrightarrow>
          (isBlacklisted st (u_hostname urlObj) = Inr True \<longrightarrow>
             ?r = blacklisted_result now u (u_hostname urlObj))
          \<and> (isBlacklisted st (u_hostname urlObj) = Inr False
               \<and> found (env_checkPhishTank e u) \<longrightarrow>
             ?r = phishTank_result now u (u_hostname urlObj) (env_checkPhishTank e u))
          \<and> (isBlacklisted st (u_hostname urlObj) = Inr False
               \<and> \<not> found (env_checkPhishTank e u) \<longrightarrow>
             (\<forall>tx. context_or_url ctx u = JString tx \<longrightarrow>
                local_analysis e u ctx = Inr ?r
                \<and> r_isLegitimate ?r = Some (spec_legitimate (toLowerCase (u_hostname urlObj)))
                \<and> contextScore ?r = Some (analyzeContext tx)
                \<and> threatLevel ?r = calculateFinalThreatLevel ?r
                \<and> issues ?r
                    = getIssues (new_URLParser (env_URL e) u)
                      @ (if ml_score (analyze (env_URL e) u) > 0
                         then (case ml_patterns (analyze (env_URL e) u) of
                                 None \<Rightarrow> [] | Some pats \<Rightarrow> map ml_pattern_issue pats)
                              @ (if ml_score (analyze (env_URL e) u) \<ge> 15
                                 then [ml_high_risk_issue (analyze (env_URL e) u)]
                                 else [])
                         else [])
                      @ validateURL (env_URL e) (env_window_protocol e) u
                      @ (if analyzeContext tx > 0
                         then [context_issue (analyzeContext tx)] else []))))"
  proof (intro allI impI conjI)
    fix urlObj
    assume p: "env_URL e u = Some urlObj"
    { assume "isWhitelisted st (u_hostname urlObj) = Inr True
                \<and> verifyWhitelistedDomain (env_URL e) (u_hostname urlObj)"
      then show "?r = whitelisted_result now u (u_hostname urlObj)"
        using fresh_paths(1) [OF p, where st = ?st1 and now = now and ctx = ctx] by (simp add: rr w) }
    assume wl: "isWhitelisted st (u_hostname urlObj) = Inr False
            \<or> isWhitelisted st (u_hostname urlObj) = Inr True
              \<and> \<not> verifyWhitelistedDomain (env_URL e) (u_hostname urlObj)"
    obtain s where sb: "isBlacklisted s (u_hostname urlObj) = isBlacklisted st (u_hostname urlObj)"
      and sf: "map_sum fst fst (analyzeLink_fresh e now ?st1 u ctx)
                 = map_sum fst fst (analyzeLink_unlisted e now s u ctx (u_hostname urlObj))"
      using fresh_paths(2) [OF p, where st = ?st1 and now = now and ctx = ctx] wl by (auto simp: w b)
    { assume "isBlacklisted st (u_hostname urlObj) = Inr True"
      then show "?r = blacklisted_result now u (u_hostname urlObj)"
        using unlisted_paths(1) [OF p, where st = s and dn = "u_hostname urlObj" and now = now and ctx = ctx]
        by (simp add: rr sf sb) }
    { assume "isBlacklisted st (u_hostname urlObj) = Inr False
               \<and> found (env_checkPhishTank e u)"
      then show "?r = phishTank_result now u (u_hostname urlObj) (env_checkPhishTank e u)"
        using unlisted_paths(2) [OF p, where st = s and dn = "u_hostname urlObj" and now = now and ctx = ctx]
        by (simp add: rr sf sb) }
    fix tx
    assume nb: "isBlacklisted st (u_hostname urlObj) = Inr False
               \<and> \<not> found (env_checkPhishTank e u)"
      and cu: "context_or_url ctx u = JString tx"
    have la: "map_sum fst fst (analyzeLink_fresh e now ?st1 u ctx) = local_analysis e u ctx"
      using unlisted_paths(3) [OF p, where st = s and dn = "u_hostname urlObj" and now = now and ctx = ctx] nb
      by (simp add: sf sb)
    obtain a where a: "local_analysis e u ctx = Inr a"
      and leg: "r_isLegitimate a = Some (spec_legitimate (toLowerCase (u_hostname urlObj)))"
      and cs: "contextScore a = Some (analyzeContext tx)"
      and lvl: "threatLevel a = calculateFinalThreatLevel a"
      and iss: "issues a = getIssues (new_URLParser (env_URL e) u)
                  @ (if ml_score (analyze (env_URL e) u) > 0
                     then (case ml_patterns (analyze (env_URL e) u) of
                             None \<Rightarrow> [] | Some pats \<Rightarrow> map ml_pattern_issue pats)
                          @ (if ml_score (analyze (env_URL e) u) \<ge> 15
                             then [ml_high_risk_issue (analyze (env_URL e) u)] else [])
                     else [])
                  @ validateURL (env_URL e) (env_window_protocol e) u
                  @ (if analyzeContext tx > 0 then [context_issue (analyzeContext tx)] else [])"
      using local_analysis_parsed [OF p cu] by blast
    have ra: "?r = a" by (simp add: rr la a)
    show "local_analysis e u ctx = Inr ?r" by (simp add: ra a)
    show "r_isLegitimate ?r = Some (spec_legitimate (toLowerCase (u_hostname urlObj)))"
      by (simp add: ra leg)
    show "contextScore ?r = Some (analyzeContext tx)" by (simp add: ra cs)
    show "threatLevel ?r = calculateFinalThreatLevel ?r" by (simp add: ra lvl)
    show "issues ?r = getIssues (new_URLParser (env_URL e) u)
                  @ (if ml_score (analyze (env_URL e) u) > 0
                     then (case ml_patterns (analyze (env_URL e) u) of
                             None \<Rightarrow> [] | Some pats \<Rightarrow> map ml_pattern_issue pats)
                          @ (if ml_score (analyze (env_URL e) u) \<ge> 15
                             then [ml_high_risk_issue (analyze (env_URL e) u)] else [])
                     else [])
                  @ validateURL (env_URL e) (env_window_protocol e) u
                  @ (if analyzeContext tx > 0 then [context_issue (analyzeContext tx)] else [])"
      by (simp only: ra iss)
  qed
  have s4: "error ?r = None \<and> length (threatCache st) \<le> 1000 \<longrightarrow>
              map_of (threatCache (snd (analyzeLink e now st u ctx))) u
                = Some (?r\<lparr>timestamp := Some now\<rparr>)"
  proof (rule impI)
    assume h: "error ?r = None \<and> length (threatCache st) \<le> 1000"
    have l1: "\<not> local_fails ?st1"
      using g assms(1) by auto
    have "(u, c) \<in> set (threatCache st)"
      using assms(2) by (rule map_of_SomeD)
    then have "length (filter (\<lambda>(k, v). k \<noteq> u) (threatCache st)) < length (threatCache st)"
      by (intro length_filter_less [of "(u, c)"]) simp_all
    then have room: "length (threatCache ?st1) < 1000
         \<or> map_of (threatCache ?st1) u \<noteq> None \<and> length (threatCache ?st1) \<le> 1000"
      using g h assms(2) by auto
    obtain a s where f: "analyzeLink_fresh e now ?st1 u ctx = Inr (a, s)"
      using h
      by (cases "analyzeLink_fresh e now ?st1 u ctx")
        (auto simp: analyzeLink_def try_cache_miss [OF miss] new_analysis_def)
    have "analyzeLink e now st u ctx = (a, s)"
      by (simp add: analyzeLink_def try_cache_miss [OF miss] f)
    then show "map_of (threatCache (snd (analyzeLink e now st u ctx))) u
                = Some (?r\<lparr>timestamp := Some now\<rparr>)"
      using fresh_cache_entry [OF f l1 room] by simp
  qed
  show "?r \<noteq> c
        \<and> ?r = fst (analyzeLink e now ?st' u ctx)
        \<and> (\<forall>urlObj. env_URL e u = Some urlObj \<longrightarrow>
       (isWhitelisted st (u_hostname urlObj) = Inr True
          \<and> verifyWhitelistedDomain (env_URL e) (u_hostname urlObj) \<longrightarrow>
        ?r = whitelisted_result now u (u_hostname urlObj))
       \<and> (isWhitelisted st (u_hostname urlObj) = Inr False
            \<or> isWhitelisted st (u_hostname urlObj) = Inr True
              \<and> \<not> verifyWhitelistedDomain (env_URL e) (u_hostname urlObj) \<longrightarrow>
          (isBlacklisted st (u_hostname urlObj) = Inr True \<longrightarrow>
             ?r = blacklisted_result now u (u_hostname urlObj))
          \<and> (isBlacklisted st (u_hostname urlObj) = Inr False
               \<and> found (env_checkPhishTank e u) \<longrightarrow>
             ?r = phishTank_result now u (u_hostname urlObj) (env_checkPhishTank e u))
          \<and> (isBlacklisted st (u_hostname urlObj) = Inr False
               \<and> \<not> found (env_checkPhishTank e u) \<longrightarrow>
             (\<forall>tx. context_or_url ctx u = JString tx \<longrightarrow>
                local_analysis e u ctx = Inr ?r
                \<and> r_isLegitimate ?r = Some (spec_legitimate (toLowerCase (u_hostname urlObj)))
                \<and> contextScore ?r = Some (analyzeContext tx)
                \<and> threatLevel ?r = calculateFinalThreatLevel ?r
                \<and> issues ?r
                    = getIssues (new_URLParser (env_URL e) u)
                      @ (if ml_score (analyze (env_URL e) u) > 0
                         then (case ml_patterns (analyze (env_URL e) u) of
                                 None \<Rightarrow> [] | Some pats \<Rightarrow> map ml_pattern_issue pats)
                              @ (if ml_score (analyze (env_URL e) u) \<ge> 15
                                 then [ml_high_risk_issue (analyze (env_URL e) u)]
                                 else [])
                         else [])
                      @ validateURL (env_URL e) (env_window_protocol e) u
                      @ (if analyzeContext tx > 0
                         then [context_issue (analyzeContext tx)] else [])))))
        \<and> (error ?r = None \<and> length (threatCache st) \<le> 1000 \<longrightarrow>
              map_of (threatCache (snd (analyzeLink e now st u ctx))) u
                = Some (?r\<lparr>timestamp := Some now\<rparr>))"
    by (rule conjI [OF s1 conjI [OF s2 conjI [OF s3 s4]]])
next
  assume young: "now - t < 3600000"
  have g: "getCachedThreat now st u = (Some c, st)"
    using assms young by (simp add: getCachedThreat_def Let_def)
  have "cached_answer now (Some c) = Some c"
    using assms young by (simp add: cached_answer_def isCacheValid_def)
  then show "analyzeLink e now st u ctx = (c, st)"
    by (simp add: analyzeLink_def analyzeLink_try_def g)
qed

theorem C7_dangerous_cache_age_witness:
  "analyzeLink example_env 2000
      (empty_store\<lparr>threatCache :=
         [(''https://abc.com'', blacklisted_result 1000 ''https://abc.com'' ''abc.com'')]\<rparr>)
      ''https://abc.com'' None
     = (blacklisted_result 1000 ''https://abc.com'' ''abc.com'',
        empty_store\<lparr>threatCache :=
         [(''https://abc.com'', blacklisted_result 1000 ''https://abc.com'' ''abc.com'')]\<rparr>)
   \<and> fst (analyzeLink example_env 3601001
      (empty_store\<lparr>threatCache :=
         [(''https://abc.com'', blacklisted_result 1000 ''https://abc.com'' ''abc.com'')]\<rparr>)
      ''https://abc.com'' None)
     \<noteq> blacklisted_result 1000 ''https://abc.com'' ''abc.com''
   \<and> local_analysis example_env ''https://abc.com'' None
       = Inr (fst (analyzeLink example_env 3601001
           (empty_store\<lparr>threatCache :=
              [(''https://abc.com'', blacklisted_result 1000 ''https://abc.com'' ''abc.com'')]\<rparr>)
           ''https://abc.com'' None))
   \<and> map_of (threatCache (snd (analyzeLink example_env 3601001
           (empty_store\<lparr>threatCache :=
              [(''https://abc.com'', blacklisted_result 1000 ''https://abc.com'' ''abc.com'')]\<rparr>)
           ''https://abc.com'' None))) ''https://abc.com''
       = Some ((fst (analyzeLink example_env 3601001
           (empty_store\<lparr>threatCache :=
              [(''https://abc.com'', blacklisted_result 1000 ''https://abc.com'' ''abc.com'')]\<rparr>)
           ''https://abc.com'' None))\<lparr>timestamp := Some 3601001\<rparr>)"
proof -
  let ?c = "blacklisted_result 1000 ''https://abc.com'' ''abc.com''"
  let ?st = "empty_store\<lparr>threatCache := [(''https://abc.com'', ?c)]\<rparr>"
  let ?abc = "mk_url ''https:'' ''abc.com'' ''/''"
  let ?r = "fst (analyzeLink example_env 3601001 ?st ''https://abc.com'' None)"
  have 1: "\<not> local_fails ?st" by (simp add: empty_store_def)
  have 2: "map_of (threatCache ?st) ''https://abc.com'' = Some ?c" by simp
  have 3: "threatLevel ?c = Dangerous" by (simp add: blacklisted_result_def new_analysis_def)
  have 4: "timestamp ?c = Some 1000" by (simp add: blacklisted_result_def)
  have 5: "(1000::int) \<noteq> 0" by simp
  note th = C7_dangerous_cache_age [OF 1 2 3 4 5, of _ example_env None]
  have a: "analyzeLink example_env 2000 ?st ''https://abc.com'' None = (?c, ?st)"
    by (rule th [of 2000, THEN conjunct2, THEN mp]) simp
  have old: "(3600000::int) < 3601001 - 1000" by simp
  note stale = th [of 3601001, THEN conjunct1, THEN mp, OF old]
  have b: "?r \<noteq> ?c"
    by (rule stale [THEN conjunct1])
  have p: "env_URL example_env ''https://abc.com'' = Some ?abc"
    by (simp add: example_env_def example_URL_def)
  have w: "isWhitelisted ?st (u_hostname ?abc) = Inr False"
    by (simp add: isWhitelisted_def getWhitelist_def empty_store_def)
  have bl: "isBlacklisted ?st (u_hostname ?abc) = Inr False
              \<and> \<not> found (env_checkPhishTank example_env ''https://abc.com'')"
    by (simp add: isBlacklisted_def getBlacklist_def empty_store_def example_env_def)
  have la: "local_analysis example_env ''https://abc.com'' None = Inr ?r"
    by (rule stale [THEN conjunct2, THEN conjunct2, THEN conjunct1, rule_format, OF p,
          THEN conjunct2, THEN mp, OF disjI1 [OF w], THEN conjunct2, THEN conjunct2,
          THEN mp, OF bl, rule_format, OF context_or_url_None, THEN conjunct1])
  have er: "error ?r = None \<and> length (threatCache ?st) \<le> 1000"
    using local_analysis_timestamp(2) [OF la] by simp
  have d: "map_of (threatCache (snd (analyzeLink example_env 3601001 ?st ''https://abc.com'' None)))
             ''https://abc.com'' = Some (?r\<lparr>timestamp := Some 3601001\<rparr>)"
    by (rule stale [THEN conjunct2, THEN conjunct2, THEN conjunct2, THEN mp, OF er])
  show ?thesis
    by (rule conjI [OF a conjI [OF b conjI [OF la d]]])
qed

section \<open>Repeated analysis\<close>

lemma empty_cache_miss:
  assumes "threatCache st = []"
  shows "getCachedThreat now st u = (None, st)"
  using assms by (simp add: getCachedThreat_def)

text \<open>
  Claim C9, as stated, fails: the result of a blacklisted domain carries the time of the
  run as its timestamp, so that two runs on the same store at different times differ.
\<close>

theorem C9_counterexample:
  "threatCache (empty_store\<lparr>blacklist := [JString ''abc.com'']\<rparr>) = []
   \<and> timestamp (fst (analyzeLink example_env 1000
                       (empty_store\<lparr>blacklist := [JString ''abc.com'']\<rparr>)
                       ''https://abc.com'' None)) = Some 1000
   \<and> timestamp (fst (analyzeLink example_env 2000
                       (empty_store\<lparr>blacklist := [JString ''abc.com'']\<rparr>)
                       ''https://abc.com'' None)) = Some 2000"
proof -
  let ?st = "empty_store\<lparr>blacklist := [JString ''abc.com'']\<rparr>"
  have p: "env_URL example_env ''https://abc.com'' = Some (mk_url ''https:'' ''abc.com'' ''/'')"
    by (simp add: example_env_def example_URL_def)
  have c: "threatCache ?st = []" by (simp add: empty_store_def)
  have w: "isWhitelisted ?st ''abc.com'' = Inr False"
    by (simp add: isWhitelisted_def getWhitelist_def empty_store_def)
  have b: "isBlacklisted ?st ''abc.com'' = Inr True"
    by (simp add: isBlacklisted_def getBlacklist_def empty_store_def)
  have "fst (analyzeLink example_env now ?st ''https://abc.com'' None)
          = blacklisted_result now ''https://abc.com'' ''abc.com''" for now
    by (simp add: analyzeLink_def analyzeLink_try_def empty_cache_miss [OF c] cached_answer_def
        analyzeLink_fresh_def p mk_url_def w analyzeLink_unlisted_def b Let_def)
  then show ?thesis by (simp add: blacklisted_result_def c)
qed

text \<open>
  Claim C9, amended: with an empty cache, two runs of \<^verbatim>\<open>analyzeLink\<close> on the same URL and
  context with the same reference data and store contents return results that are equal
  in every field but the timestamp, whatever the times of the runs; when the call takes
  no shortcut (whitelist, blacklist, reputation match) the results are equal, the result
  of the local analysis having no timestamp.
\<close>

theorem C9_repeatable:
  assumes "threatCache st = []"
  shows "(fst (analyzeLink e now st u ctx))\<lparr>timestamp := None\<rparr>
           = (fst (analyzeLink e now' st u ctx))\<lparr>timestamp := None\<rparr>
       \<and> (no_shortcut e now st u \<longrightarrow>
             fst (analyzeLink e now st u ctx) = fst (analyzeLink e now' st u ctx))"
proof (intro conjI impI)
  have t: "analyzeLink_try e n st u ctx = analyzeLink_fresh e n st u ctx" for n
    by (simp add: analyzeLink_try_def empty_cache_miss [OF assms] cached_answer_def)
  have "map_sum fst (\<lambda>r. (fst r)\<lparr>timestamp := None\<rparr>) (analyzeLink_fresh e now st u ctx)
      = map_sum fst (\<lambda>r. (fst r)\<lparr>timestamp := None\<rparr>) (analyzeLink_fresh e now' st u ctx)"
    by (rule fresh_result_indep(1)) simp_all
  then show "(fst (analyzeLink e now st u ctx))\<lparr>timestamp := None\<rparr>
           = (fst (analyzeLink e now' st u ctx))\<lparr>timestamp := None\<rparr>"
    by (simp add: analyzeLink_fst_erased t)
next
  assume n: "no_shortcut e now st u"
  then have n': "no_shortcut e now' st u"
    by (simp add: no_shortcut_def empty_cache_miss [OF assms] cached_answer_def)
  show "fst (analyzeLink e now st u ctx) = fst (analyzeLink e now' st u ctx)"
    by (simp add: analyzeLink_no_shortcut_cases [OF n] analyzeLink_no_shortcut_cases [OF n'])
qed

theorem C9_repeatable_witness:
  "no_shortcut example_env 1000 empty_store ''https://abc.com''
   \<and> fst (analyzeLink example_env 1000 empty_store ''https://abc.com'' None)
       = fst (analyzeLink example_env 2000 empty_store ''https://abc.com'' None)"
proof -
  have p: "env_URL example_env ''https://abc.com'' = Some (mk_url ''https:'' ''abc.com'' ''/'')"
    by (simp add: example_env_def example_URL_def)
  have c: "threatCache empty_store = []" by (simp add: empty_store_def)
  have n: "no_shortcut example_env 1000 empty_store ''https://abc.com''"
    by (rule empty_stores_no_shortcut [OF _ _ _ _ p])
      (simp_all add: empty_store_def example_env_def)
  show ?thesis
    using C9_repeatable [OF c, of example_env 1000 "''https://abc.com''" None 2000] n
    by (simp only: simp_thms)
qed

section \<open>Entropy\<close>

lemma fold_minus_sum: "fold (\<lambda>ch e. e - g ch) xs (a::real) = a - sum_list (map g xs)"
  by (induction xs arbitrary: a) simp_all

text \<open>The entropy of a string is at most the binary logarithm of its length.\<close>

lemma calculateEntropy_le_log:
  assumes "s \<noteq> []"
  shows "calculateEntropy s \<le> log 2 (real (length s))"
proof -
  let ?n = "real (length s)"
  let ?p = "\<lambda>ch. real (count_list s ch) / ?n"
  have n: "?n > 0" using assms by simp
  have ent: "calculateEntropy s = - (\<Sum>ch\<in>set s. ?p ch * log 2 (?p ch))"
    unfolding calculateEntropy_def Let_def fold_minus_sum
    by (simp add: sum_list_distinct_conv_sum_set)
  have bound: "- (?p ch * log 2 (?p ch)) \<le> ?p ch * log 2 ?n" if "ch \<in> set s" for ch
  proof -
    define q where "q = ?p ch"
    have "count_list s ch \<noteq> 0" using that by (simp add: count_list_0_iff)
    then have c1: "1 \<le> count_list s ch" by simp
    have p1: "1 / ?n \<le> q" using c1 n by (simp add: q_def divide_le_cancel)
    have p0: "0 < q" using c1 n by (simp add: q_def)
    have n1: "0 < 1 / ?n" using n by simp
    have "log 2 (1 / ?n) \<le> log 2 q"
      using log_le_cancel_iff [of 2 "1 / ?n" q] p1 n1 p0 by simp
    then have "- log 2 ?n \<le> log 2 q"
      using n by (simp add: log_divide)
    then have le: "- log 2 q \<le> log 2 ?n" by simp
    have "q * (- log 2 q) \<le> q * log 2 ?n"
      by (rule mult_left_mono [OF le]) (use p0 in simp)
    then have "- (q * log 2 q) \<le> q * log 2 ?n" by simp
    then show ?thesis by (simp only: q_def)
  qed
  have "(\<Sum>ch\<in>set s. real (count_list s ch)) = ?n"
    using sum_count_set [of s "set s"] by (simp flip: of_nat_sum)
  then have total: "(\<Sum>ch\<in>set s. ?p ch) = 1"
    using n by (simp flip: sum_divide_distrib)
  have "calculateEntropy s = (\<Sum>ch\<in>set s. - (?p ch * log 2 (?p ch)))"
    by (simp add: ent sum_negf)
  also have "\<dots> \<le> (\<Sum>ch\<in>set s. ?p ch * log 2 ?n)"
    by (rule sum_mono) (rule bound)
  also have "\<dots> = (\<Sum>ch\<in>set s. ?p ch) * log 2 ?n"
    by (simp add: sum_distrib_right)
  also have "\<dots> = log 2 ?n" by (simp only: total mult_1)
  finally show ?thesis .
qed

lemma calculateEntropy_short:
  assumes "s \<noteq> []" and "length s \<le> 16"
  shows "calculateEntropy s \<le> 4"
proof -
  have "log 2 (real (length s)) \<le> log 2 16"
    using assms by (simp add: log_le_cancel_iff)
  also have "log 2 16 = (4::real)"
    using log_pow_cancel [of 2 4] by (simp add: log2_of_power_eq [of 16 4])
  finally show ?thesis using calculateEntropy_le_log [OF assms(1)] by linarith
qed

section \<open>The host gooogle.com\<close>

lemma extractFeatures_parsed:
  assumes "URL u = Some urlObj"
  shows "extractFeatures URL u = Some
        \<lparr>urlLength = length u,
         domainLength = length (u_hostname urlObj),
         pathLength = length (u_pathname urlObj),
         paramCount = length (u_searchParams urlObj),
         digitCount = length (filter is_digit u),
         specialCharCount = length (filter (\<lambda>c. \<not> (is_lower c \<or> is_upper c \<or> is_digit c)) u),
         uppercaseCount = length (filter is_upper u),
         subdomainCount = int (length (split_dot (u_hostname urlObj))) - 2,
         hasDash = str_includes (u_hostname urlObj) ''-'',
         hasUnderscore = str_includes (u_hostname urlObj) ''_'',
         hasIP = regex_test False
                   [d13, Lits [''.''], d13, Lits [''.''], d13, Lits [''.''], d13]
                   (u_hostname urlObj),
         hasPort = (u_port urlObj \<noteq> []),
         hasAtSymbol = str_includes u ''@'',
         isHTTPS = (u_protocol urlObj = ''https:''),
         tld = last (split_dot (u_hostname urlObj)),
         isCommonTLD = (last (split_dot (u_hostname urlObj))
                          \<in> set [''com'', ''org'', ''net'', ''edu'', ''gov'']),
         entropy = calculateEntropy (u_hostname urlObj),
         suspiciousKeywords = countSuspiciousKeywords u\<rparr>"
  unfolding extractFeatures_def assms by (simp only: option.case)

lemma gooogle_url:
  "example_URL ''https://gooogle.com'' = Some (mk_url ''https:'' ''gooogle.com'' ''/'')"
  by (simp add: example_URL_def)

lemma gooogle_conditions:
  "(75 < length ''https://gooogle.com'') = False"
  "(100 < length ''https://gooogle.com'') = False"
  "(30 < length ''gooogle.com'') = False"
  "(8 < length (filter is_digit ''https://gooogle.com'')) = False"
  "(10 < length (filter (\<lambda>c. \<not> (is_lower c \<or> is_upper c \<or> is_digit c))
                   ''https://gooogle.com'')) = False"
  "(3 < int (length (split_dot ''gooogle.com'')) - 2) = False"
  "str_includes ''gooogle.com'' ''-'' = False"
  "str_includes ''gooogle.com'' ''_'' = False"
  "regex_test False [d13, Lits [''.''], d13, Lits [''.''], d13, Lits [''.''], d13]
     ''gooogle.com'' = False"
  "str_includes ''https://gooogle.com'' ''@'' = False"
  "(last (split_dot ''gooogle.com'') \<in> set [''com'', ''org'', ''net'', ''edu'', ''gov'']) = True"
  "(last (split_dot ''gooogle.com'')
      \<in> set [''tk'', ''ml'', ''ga'', ''cf'', ''gq'', ''top'', ''xyz'']) = False"
  "countSuspiciousKeywords ''https://gooogle.com'' = 0"
  by code_simp+

lemma gooogle_uppercase:
  "(real (length ''gooogle.com'') * 0.5
      < real (length (filter is_upper ''https://gooogle.com''))) = False"
  by (simp add: is_upper_def code_def)

lemma gooogle_score:
  "calculatePhishingScore (extractFeatures example_URL ''https://gooogle.com'') = 0"
proof -
  have e: "calculateEntropy ''gooogle.com'' \<le> 4"
    by (rule calculateEntropy_short) simp_all
  have e1: "(4.5 < calculateEntropy ''gooogle.com'') = False"
    "(5 < calculateEntropy ''gooogle.com'') = False"
    using e by simp_all
  have h: "u_hostname (mk_url ''https:'' ''gooogle.com'' ''/'') = ''gooogle.com''"
    "u_protocol (mk_url ''https:'' ''gooogle.com'' ''/'') = ''https:''"
    "u_port (mk_url ''https:'' ''gooogle.com'' ''/'') = []"
    by (simp_all add: mk_url_def)
  show ?thesis
    apply (subst extractFeatures_parsed [of example_URL "''https://gooogle.com''", OF gooogle_url])
    apply (subst calculatePhishingScore_def)
    apply (simp only: option.case features.select_convs h)
    apply (simp only: Let_def)
    apply (simp only: gooogle_conditions gooogle_uppercase e1)
    apply (simp add: add_if_def)
    done
qed

lemma gooogle_patterns:
  "matchKnownPatterns ''https://gooogle.com''
     = \<lparr>km_score = 0, km_matches = [], km_hasMatch = False\<rparr>"
  by code_simp

lemma gooogle_ml: "ml_score (analyze example_URL ''https://gooogle.com'') = 0"
proof -
  obtain f where f: "extractFeatures example_URL ''https://gooogle.com'' = Some f"
    using extractFeatures_parsed [of example_URL "''https://gooogle.com''", OF gooogle_url]
    by blast
  show ?thesis
    using gooogle_score by (simp add: analyze_def f Let_def gooogle_patterns)
qed

lemma gooogle_ssl: "validateURL example_URL None ''https://gooogle.com'' = []"
  by code_simp

lemma gooogle_context: "analyzeContext ''https://gooogle.com'' = 0"
  by code_simp

lemma gooogle_not_typosquatting: "isTyposquatting ''gooogle.com'' ''gooogle.com'' = False"
  by code_simp

lemma gooogle_distance:
  "levenshteinDistance ''gooogle.com'' ''google.com'' = 1
   \<and> \<not> str_includes ''gooogle.com'' ''google''
   \<and> extractDomain (toLowerCase ''gooogle.com'') = ''gooogle.com''"
  by code_simp

text \<open>
  Claim C4 does not hold of the code.  The host gooogle.com is at edit distance 1 from
  google.com, but it does not contain the target string google, so that the typosquatting
  detector never compares the two and returns false; the only issue of the URL parser is
  the homograph issue, its threat level is suspicious, and the full analysis of
  \<^verbatim>\<open>https://gooogle.com\<close> with empty stores yields suspicious, not dangerous.
\<close>

theorem C4_gooogle_not_detected:
  "levenshteinDistance ''gooogle.com'' ''google.com'' = 1
   \<and> \<not> str_includes ''gooogle.com'' ''google''
   \<and> isTyposquatting ''gooogle.com'' ''gooogle.com'' = False
   \<and> getThreatLevel \<lparr>p_url = ''https://gooogle.com'',
                      parsed = Some (mk_url ''https:'' ''gooogle.com'' ''/'')\<rparr> = Inr Suspicious
   \<and> threatLevel (fst (analyzeLink example_env now empty_store ''https://gooogle.com'' None))
       = Suspicious"
proof -
  let ?u = "''https://gooogle.com''"
  let ?p = "\<lparr>p_url = ?u, parsed = Some (mk_url ''https:'' ''gooogle.com'' ''/'')\<rparr>"
  have p: "env_URL example_env ?u = Some (mk_url ''https:'' ''gooogle.com'' ''/'')"
    by (simp add: example_env_def gooogle_url)
  have h: "u_hostname (mk_url ''https:'' ''gooogle.com'' ''/'') = ''gooogle.com''"
    by (simp add: mk_url_def)
  have pl: "getThreatLevel ?p = Inr Suspicious"
    using gooogle_not_legitimate
    by (simp add: getThreatLevel_def isLegitimate_parsed [of ?p] h gooogle_issues
        count_severity_def mk_issue_def)
  have n: "no_shortcut example_env now empty_store ?u"
    by (rule empty_stores_no_shortcut [OF _ _ _ _ p])
      (simp_all add: empty_store_def example_env_def)
  have np: "new_URLParser (env_URL example_env) ?u = ?p"
    by (simp add: new_URLParser_def p)
  have ssl: "validateURL (env_URL example_env) (env_window_protocol example_env) ?u = []"
    by (simp add: example_env_def gooogle_ssl)
  have ml: "ml_score (analyze (env_URL example_env) ?u) = 0"
    by (simp add: example_env_def gooogle_ml)
  note facts = local_analysis_parsed
    [OF p context_or_url_None, unfolded h np gooogle_issues ssl ml gooogle_context]
  obtain a where la: "local_analysis example_env ?u None = Inr a"
    and leg: "r_isLegitimate a = Some (spec_legitimate (toLowerCase ''gooogle.com''))"
    and cs: "contextScore a = Some 0"
    and lvl: "threatLevel a = calculateFinalThreatLevel a"
    and iss: "issues a = [mk_issue ''homograph'' High ''URL contains lookalike characters'']"
    using facts by auto
  have "calculateFinalThreatLevel a = Suspicious"
    using gooogle_not_legitimate
    by (simp add: calculateFinalThreatLevel_def leg cs iss count_severity_def mk_issue_def)
  then have "threatLevel (fst (analyzeLink example_env now empty_store ?u None)) = Suspicious"
    using analyzeLink_no_shortcut [OF n la] lvl by simp
  then show ?thesis
    using gooogle_distance gooogle_not_typosquatting pl by simp
qed

section \<open>The URL as context\<close>

lemma analyzeContext_sum:
  "analyzeContext u
     = length (filter (\<lambda>k. str_includes (toLowerCase u) k) PHISHING_KEYWORDS)
       + 3 * length (filter (\<lambda>k. str_includes (toLowerCase u) k) SPAM_INDICATORS)"
proof (cases "u = []")
  case True
  have "filter (\<lambda>k. str_includes [] k) PHISHING_KEYWORDS = []"
    by (simp add: PHISHING_KEYWORDS_def)
  moreover have "filter (\<lambda>k. str_includes [] k) SPAM_INDICATORS = []"
    by (simp add: SPAM_INDICATORS_def)
  ultimately show ?thesis using True by (simp add: analyzeContext_def toLowerCase_def)
next
  case False
  then show ?thesis by (simp add: analyzeContext_def Let_def)
qed

lemma context_issue_type: "itype (context_issue n) = ''suspicious_context''"
  by (simp add: context_issue_def mk_issue_def)

lemma pharmacy_context: "analyzeContext ''https://abc.com/bitcoin-forex-pharmacy'' = 9"
  by code_simp

lemma abc_not_legitimate: "\<not> spec_legitimate (toLowerCase ''abc.com'')"
  unfolding spec_legitimate_def by code_simp

lemma pharmacy_url:
  "example_URL ''https://abc.com/bitcoin-forex-pharmacy''
     = Some (mk_url ''https:'' ''abc.com'' ''/bitcoin-forex-pharmacy'')"
  by (simp add: example_URL_def)

lemma pharmacy_conditions:
  "(75 < length ''https://abc.com/bitcoin-forex-pharmacy'') = False"
  "(100 < length ''https://abc.com/bitcoin-forex-pharmacy'') = False"
  "(30 < length ''abc.com'') = False"
  "(8 < length (filter is_digit ''https://abc.com/bitcoin-forex-pharmacy'')) = False"
  "(10 < length (filter (\<lambda>c. \<not> (is_lower c \<or> is_upper c \<or> is_digit c))
                   ''https://abc.com/bitcoin-forex-pharmacy'')) = False"
  "(3 < int (length (split_dot ''abc.com'')) - 2) = False"
  "str_includes ''abc.com'' ''-'' = False"
  "str_includes ''abc.com'' ''_'' = False"
  "regex_test False [d13, Lits [''.''], d13, Lits [''.''], d13, Lits [''.''], d13]
     ''abc.com'' = False"
  "str_includes ''https://abc.com/bitcoin-forex-pharmacy'' ''@'' = False"
  "(last (split_dot ''abc.com'') \<in> set [''com'', ''org'', ''net'', ''edu'', ''gov'']) = True"
  "(last (split_dot ''abc.com'')
      \<in> set [''tk'', ''ml'', ''ga'', ''cf'', ''gq'', ''top'', ''xyz'']) = False"
  "countSuspiciousKeywords ''https://abc.com/bitcoin-forex-pharmacy'' = 0"
  by code_simp+

lemma pharmacy_uppercase:
  "(real (length ''abc.com'') * 0.5
      < real (length (filter is_upper ''https://abc.com/bitcoin-forex-pharmacy''))) = False"
  by (simp add: is_upper_def code_def)

lemma pharmacy_score:
  "calculatePhishingScore (extractFeatures example_URL ''https://abc.com/bitcoin-forex-pharmacy'')
     = 0"
proof -
  have e: "calculateEntropy ''abc.com'' \<le> 4"
    by (rule calculateEntropy_short) simp_all
  have e1: "(4.5 < calculateEntropy ''abc.com'') = False"
    "(5 < calculateEntropy ''abc.com'') = False"
    using e by simp_all
  have h: "u_hostname (mk_url ''https:'' ''abc.com'' ''/bitcoin-forex-pharmacy'') = ''abc.com''"
    "u_protocol (mk_url ''https:'' ''abc.com'' ''/bitcoin-forex-pharmacy'') = ''https:''"
    "u_port (mk_url ''https:'' ''abc.com'' ''/bitcoin-forex-pharmacy'') = []"
    by (simp_all add: mk_url_def)
  show ?thesis
    apply (subst extractFeatures_parsed
        [of example_URL "''https://abc.com/bitcoin-forex-pharmacy''", OF pharmacy_url])
    apply (subst calculatePhishingScore_def)
    apply (simp only: option.case features.select_convs h)
    apply (simp only: Let_def)
    apply (simp only: pharmacy_conditions pharmacy_uppercase e1)
    apply (simp add: add_if_def)
    done
qed

lemma pharmacy_patterns:
  "matchKnownPatterns ''https://abc.com/bitcoin-forex-pharmacy''
     = \<lparr>km_score = 0, km_matches = [], km_hasMatch = False\<rparr>"
  by code_simp

lemma pharmacy_ml:
  "ml_score (analyze example_URL ''https://abc.com/bitcoin-forex-pharmacy'') = 0"
proof -
  obtain f where
    f: "extractFeatures example_URL ''https://abc.com/bitcoin-forex-pharmacy'' = Some f"
    using extractFeatures_parsed
      [of example_URL "''https://abc.com/bitcoin-forex-pharmacy''", OF pharmacy_url]
    by blast
  show ?thesis
    using pharmacy_score by (simp add: analyze_def f Let_def pharmacy_patterns)
qed

lemma pharmacy_ssl:
  "validateURL example_URL None ''https://abc.com/bitcoin-forex-pharmacy'' = []"
  by code_simp

lemma pharmacy_issues:
  "getIssues \<lparr>p_url = ''https://abc.com/bitcoin-forex-pharmacy'',
              parsed = Some (mk_url ''https:'' ''abc.com'' ''/bitcoin-forex-pharmacy'')\<rparr> = []"
  by code_simp

text \<open>
  Claim C10, as stated, fails: a call that ends at a shortcut returns a result without
  context score.  For a blacklisted host the result has no \<^verbatim>\<open>contextScore\<close> although the
  URL scores 9.
\<close>

theorem C10_counterexample:
  "analyzeContext ''https://abc.com/bitcoin-forex-pharmacy'' = 9
   \<and> contextScore (fst (analyzeLink example_env 0
                          (empty_store\<lparr>blacklist := [JString ''abc.com'']\<rparr>)
                          ''https://abc.com/bitcoin-forex-pharmacy'' None)) = None"
proof -
  let ?st = "empty_store\<lparr>blacklist := [JString ''abc.com'']\<rparr>"
  let ?u = "''https://abc.com/bitcoin-forex-pharmacy''"
  have p: "env_URL example_env ?u = Some (mk_url ''https:'' ''abc.com'' ''/bitcoin-forex-pharmacy'')"
    by (simp add: example_env_def example_URL_def)
  have c: "threatCache ?st = []" by (simp add: empty_store_def)
  have w: "isWhitelisted ?st ''abc.com'' = Inr False"
    by (simp add: isWhitelisted_def getWhitelist_def empty_store_def)
  have b: "isBlacklisted ?st ''abc.com'' = Inr True"
    by (simp add: isBlacklisted_def getBlacklist_def empty_store_def)
  have "fst (analyzeLink example_env 0 ?st ?u None) = blacklisted_result 0 ?u ''abc.com''"
    by (simp add: analyzeLink_def analyzeLink_try_def empty_cache_miss [OF c] cached_answer_def
        analyzeLink_fresh_def p mk_url_def w analyzeLink_unlisted_def b Let_def)
  then show ?thesis
    by (simp add: blacklisted_result_def new_analysis_def pharmacy_context)
qed

text \<open>
  Claim C10, amended: when \<^verbatim>\<open>analyzeLink\<close> is called with no context (or an empty or
  otherwise falsy one) and takes no shortcut (no cached answer, the URL parses, the host is neither
  whitelisted, blacklisted nor reputation-matched), the URL string itself is the context
  text: the result's context score is the keyword score of the URL (1 for each phishing
  keyword and 3 for each spam indicator that is a substring of the lower-cased URL); a
  positive score adds a suspicious_context issue; and on a domain that is not legitimate
  a score of at least 5 forces the suspicious or dangerous verdict and a score of at
  least 9 the dangerous verdict, whatever else was detected.
\<close>

theorem C10_url_as_context:
  assumes "no_shortcut e now st u" and "ctx = None \<or> (\<exists>c. ctx = Some c \<and> \<not> truthy c)"
  shows "contextScore (fst (analyzeLink e now st u ctx)) = Some (analyzeContext u)
       \<and> analyzeContext u
           = length (filter (\<lambda>k. str_includes (toLowerCase u) k) PHISHING_KEYWORDS)
             + 3 * length (filter (\<lambda>k. str_includes (toLowerCase u) k) SPAM_INDICATORS)
       \<and> (analyzeContext u > 0 \<longrightarrow>
             context_issue (analyzeContext u) \<in> set (issues (fst (analyzeLink e now st u ctx)))
             \<and> itype (context_issue (analyzeContext u)) = ''suspicious_context'')
       \<and> (r_isLegitimate (fst (analyzeLink e now st u ctx)) \<noteq> Some True \<longrightarrow>
             (analyzeContext u \<ge> 9 \<longrightarrow>
                threatLevel (fst (analyzeLink e now st u ctx)) = Dangerous)
             \<and> (analyzeContext u \<ge> 5 \<longrightarrow>
                threatLevel (fst (analyzeLink e now st u ctx)) \<in> {Suspicious, Dangerous}))"
proof -
  from assms(1) obtain urlObj where p: "env_URL e u = Some urlObj"
    by (auto simp: no_shortcut_def split: option.splits)
  have cu: "context_or_url ctx u = JString u"
    by (rule falsy_context_or_url [OF assms(2)])
  obtain a where la: "local_analysis e u ctx = Inr a"
    and cs: "contextScore a = Some (analyzeContext u)"
    and lvl: "threatLevel a = calculateFinalThreatLevel a"
    and iss: "issues a = getIssues (new_URLParser (env_URL e) u)
               @ (if ml_score (analyze (env_URL e) u) > 0
                  then (case ml_patterns (analyze (env_URL e) u) of
                          None \<Rightarrow> [] | Some pats \<Rightarrow> map ml_pattern_issue pats)
                       @ (if ml_score (analyze (env_URL e) u) \<ge> 15
                          then [ml_high_risk_issue (analyze (env_URL e) u)] else [])
                  else [])
               @ validateURL (env_URL e) (env_window_protocol e) u
               @ (if analyzeContext u > 0 then [context_issue (analyzeContext u)] else [])"
    using local_analysis_parsed [OF p cu] by blast
  have r: "fst (analyzeLink e now st u ctx) = a"
    by (rule analyzeLink_no_shortcut [OF assms(1) la])
  have i: "analyzeContext u > 0 \<longrightarrow> context_issue (analyzeContext u) \<in> set (issues a)"
    by (simp add: iss)
  have d: "r_isLegitimate a \<noteq> Some True \<longrightarrow> analyzeContext u \<ge> 9 \<longrightarrow>
             calculateFinalThreatLevel a = Dangerous"
    by (simp add: calculateFinalThreatLevel_def Let_def cs)
  have s: "r_isLegitimate a \<noteq> Some True \<longrightarrow> analyzeContext u \<ge> 5 \<longrightarrow>
             calculateFinalThreatLevel a \<in> {Suspicious, Dangerous}"
    by (simp add: calculateFinalThreatLevel_def Let_def cs)
  show ?thesis
    using i d s analyzeContext_sum [of u]
    by (simp add: r cs lvl context_issue_type)
qed

theorem C10_url_as_context_witness:
  "contextScore (fst (analyzeLink example_env 0 empty_store
                        ''https://abc.com/bitcoin-forex-pharmacy'' None)) = Some 9
   \<and> issues (fst (analyzeLink example_env 0 empty_store
                    ''https://abc.com/bitcoin-forex-pharmacy'' None)) = [context_issue 9]
   \<and> threatLevel (fst (analyzeLink example_env 0 empty_store
                        ''https://abc.com/bitcoin-forex-pharmacy'' None)) = Dangerous"
proof -
  let ?u = "''https://abc.com/bitcoin-forex-pharmacy''"
  let ?p = "\<lparr>p_url = ?u, parsed = Some (mk_url ''https:'' ''abc.com'' ''/bitcoin-forex-pharmacy'')\<rparr>"
  have p: "env_URL example_env ?u = Some (mk_url ''https:'' ''abc.com'' ''/bitcoin-forex-pharmacy'')"
    by (simp add: example_env_def example_URL_def)
  have h: "u_hostname (mk_url ''https:'' ''abc.com'' ''/bitcoin-forex-pharmacy'') = ''abc.com''"
    by (simp add: mk_url_def)
  have n: "no_shortcut example_env 0 empty_store ?u"
    by (rule empty_stores_no_shortcut [OF _ _ _ _ p])
      (simp_all add: empty_store_def example_env_def)
  have np: "new_URLParser (env_URL example_env) ?u = ?p"
    by (simp add: new_URLParser_def p)
  have ssl: "validateURL (env_URL example_env) (env_window_protocol example_env) ?u = []"
    by (simp add: example_env_def pharmacy_ssl)
  have ml: "ml_score (analyze (env_URL example_env) ?u) = 0"
    by (simp add: example_env_def pharmacy_ml)
  note facts = local_analysis_parsed
    [OF p context_or_url_None, unfolded h np pharmacy_issues ssl ml pharmacy_context]
  obtain a where la: "local_analysis example_env ?u None = Inr a"
    and leg: "r_isLegitimate a = Some (spec_legitimate (toLowerCase ''abc.com''))"
    and iss: "issues a = [context_issue 9]"
    using facts by auto
  have r: "fst (analyzeLink example_env 0 empty_store ?u None) = a"
    by (rule analyzeLink_no_shortcut [OF n la])
  have nl: "r_isLegitimate (fst (analyzeLink example_env 0 empty_store ?u None)) \<noteq> Some True"
    using abc_not_legitimate by (simp add: r leg)
  have "issues (fst (analyzeLink example_env 0 empty_store ?u None)) = [context_issue 9]"
    by (simp add: r iss)
  then show ?thesis
    using C10_url_as_context [OF n, of None] nl
    by (simp add: pharmacy_context)
qed


end
